theory Spec2Isabelle
  imports Complex_Main
begin

section \<open>Data model (types/index.ts)\<close>

text \<open>
  A JavaScript \<open>number\<close> is taken as a real: the development reasons about the formulas
  of the code in exact arithmetic, except where the code stores a number in a
  \<open>Float32Array\<close>, where the value kept is the number rounded to single precision (see
  \<open>float32\<close> below). Node objects are shared between the node array of the
  simulation and the endpoints of the links, and the orbital force mutates them in place,
  so nodes live in an object store and are named by reference.
\<close>

datatype node_kind = Root | Branch | Leaf

record node =
  node_id :: string
  node_type :: node_kind
  node_size :: real
  node_x :: real
  node_y :: real
  node_z :: real
  node_vx :: real
  node_vy :: real
  node_vz :: real

type_synonym ref = nat

type_synonym store = "ref \<Rightarrow> node"

text \<open>\<open>source: string | Token\<close>: an endpoint is an id until the host resolves it to the
  node object.\<close>

datatype endpoint = Id string | Obj ref

record link =
  link_source :: endpoint
  link_target :: endpoint
  link_value :: real
  link_color :: "string option"

section \<open>Numbers stored in single precision\<close>

text \<open>Rounding to the nearest integer, a tie going to the even one.\<close>

definition rne :: "real \<Rightarrow> int" where
  "rne x =
     (let f = \<lfloor>x\<rfloor>; d = x - of_int f
      in if d < 1 / 2 then f else if d > 1 / 2 then f + 1 else if even f then f else f + 1)"

text \<open>The binary exponent of a number, not below the exponent -126 of the smallest normal
  single precision number.\<close>

definition expo :: "real \<Rightarrow> int" where
  "expo x = max \<lfloor>log 2 \<bar>x\<bar>\<rfloor> (- 126)"

text \<open>What a \<open>Float32Array\<close> keeps of a number written to it: the nearest number with a
  significand of 24 bits at that exponent, a tie going to the even significand. A number
  beyond the largest finite single precision number becomes infinite in the code; such
  numbers are outside the model.\<close>

definition float32 :: "real \<Rightarrow> real" where
  "float32 x =
     (if x = 0 then 0
      else
        (let u = 2 powr (of_int (expo x) - 23)
         in of_int (rne (x / u)) * u))"

section \<open>The orbital force (physics/OrbitalForce.ts)\<close>

text \<open>The variables closed over by \<open>orbitalForce()\<close>.\<close>

record orbital =
  nodes :: "ref list"
  links :: "link list"
  strength :: real
  focalPoint :: "ref option"

definition orbitalForce :: orbital where
  "orbitalForce = \<lparr>nodes = [], links = [], strength = 1, focalPoint = None\<rparr>"

definition initialize :: "ref list \<Rightarrow> link list option \<Rightarrow> orbital \<Rightarrow> orbital" where
  "initialize ns ls F = F\<lparr>nodes := ns, links := (case ls of Some l \<Rightarrow> l | None \<Rightarrow> [])\<rparr>"

text \<open>\<open>force.strength(_)\<close> with an argument stores it and returns the force; without
  one it reads the variable. The same for \<open>force.focalPoint\<close>.\<close>

definition set_strength :: "real \<Rightarrow> orbital \<Rightarrow> orbital" where
  "set_strength s F = F\<lparr>strength := s\<rparr>"

definition get_strength :: "orbital \<Rightarrow> real" where
  "get_strength F = strength F"

definition set_focalPoint :: "ref option \<Rightarrow> orbital \<Rightarrow> orbital" where
  "set_focalPoint p F = F\<lparr>focalPoint := p\<rparr>"

definition get_focalPoint :: "orbital \<Rightarrow> ref option" where
  "get_focalPoint F = focalPoint F"

text \<open>\<open>linkValue ? 30 / Math.max(linkValue, 1) : 30\<close>: a number is truthy when it is
  not zero.\<close>

definition calculateOrbitRadius :: "node \<Rightarrow> node \<Rightarrow> real \<Rightarrow> real" where
  "calculateOrbitRadius parent n linkValue =
     (let baseRadius = node_size parent + node_size n + 10;
          valueAdjustment = (if linkValue \<noteq> 0 then 30 / max linkValue 1 else 30)
      in baseRadius + valueAdjustment)"

text \<open>The predicate of \<open>links.filter\<close>: both endpoints are objects, and the node is one
  end while the other end is a branch or the root.\<close>

definition isParentLink :: "store \<Rightarrow> node \<Rightarrow> link \<Rightarrow> bool" where
  "isParentLink h n l =
     (case (link_source l, link_target l) of
        (Obj s, Obj t) \<Rightarrow>
          if node_id (h s) = node_id n \<and> (node_type (h t) = Branch \<or> node_type (h t) = Root)
          then True
          else if node_id (h t) = node_id n \<and> (node_type (h s) = Branch \<or> node_type (h s) = Root)
          then True
          else False
      | _ \<Rightarrow> False)"

text \<open>\<open>nodes.findIndex(n => n.id === node.id)\<close>, which is \<open>-1\<close> when no element
  matches.\<close>

fun findIndex :: "('a \<Rightarrow> bool) \<Rightarrow> 'a list \<Rightarrow> int" where
  "findIndex p [] = -1"
| "findIndex p (a # as) =
     (if p a then 0 else (let r = findIndex p as in if r < 0 then -1 else r + 1))"

text \<open>The remainder operator \<open>%\<close> of JavaScript takes the sign of the dividend.\<close>

definition js_rem :: "int \<Rightarrow> int \<Rightarrow> int" where
  "js_rem a b = sgn a * (\<bar>a\<bar> mod \<bar>b\<bar>)"

text \<open>Lines 31 to 76 of the callback: the point on the orbit the node is pulled to, when
  the node orbits at all. \<open>now\<close> is the reading of \<open>Date.now()\<close>.\<close>

definition orbitalTarget :: "orbital \<Rightarrow> real \<Rightarrow> ref \<Rightarrow> store \<Rightarrow> (real \<times> real \<times> real) option" where
  "orbitalTarget F now r h =
     (let n = h r in
      if node_type n = Root then None
      else
        (case filter (isParentLink h n) (links F) of
           [] \<Rightarrow> None
         | parentLink # _ \<Rightarrow>
             (case (link_source parentLink, link_target parentLink) of
                (Obj s, Obj t) \<Rightarrow>
                  (let parent = (if node_id (h s) = node_id n then h t else h s);
                       nodeIndex = findIndex (\<lambda>m. node_id (h m) = node_id n) (nodes F);
                       orbitSpeed = (if node_type n = Leaf then 0.00025 * strength F
                                     else 0.0001 * strength F);
                       orbitRadius = calculateOrbitRadius parent n (link_value parentLink);
                       planeOffset = real_of_int (js_rem nodeIndex 5) * (pi / 10) + pi / 20;
                       angle = now * orbitSpeed + real_of_int nodeIndex * (pi / 6);
                       targetX = node_x parent + cos angle * orbitRadius;
                       targetY = node_y parent + sin angle * orbitRadius * cos planeOffset;
                       targetZ = node_z parent + sin angle * orbitRadius * sin planeOffset
                   in Some (targetX, targetY, targetZ))
              | _ \<Rightarrow> None)))"

text \<open>Lines 79 to 85: the distance from the node to a point.\<close>

definition distanceTo :: "real \<times> real \<times> real \<Rightarrow> node \<Rightarrow> real" where
  "distanceTo t n =
     (case t of (targetX, targetY, targetZ) \<Rightarrow>
        (let dx = targetX - node_x n; dy = targetY - node_y n; dz = targetZ - node_z n
         in sqrt (dx * dx + dy * dy + dz * dz)))"

text \<open>The whole callback of \<open>nodes.forEach\<close> for the node object \<open>r\<close>.\<close>

definition visit :: "orbital \<Rightarrow> real \<Rightarrow> real \<Rightarrow> ref \<Rightarrow> store \<Rightarrow> store" where
  "visit F alpha now r h =
     (case orbitalTarget F now r h of
        None \<Rightarrow> h
      | Some (targetX, targetY, targetZ) \<Rightarrow>
          (let n = h r;
               dx = targetX - node_x n;
               dy = targetY - node_y n;
               dz = targetZ - node_z n;
               distance = distanceTo (targetX, targetY, targetZ) n
           in if distance = 0 then h
              else
                (let forceMagnitude = min distance 2 * alpha * strength F
                 in h(r := n\<lparr>node_vx := node_vx n + (dx / distance) * forceMagnitude,
                              node_vy := node_vy n + (dy / distance) * forceMagnitude,
                              node_vz := node_vz n + (dz / distance) * forceMagnitude\<rparr>))))"

text \<open>\<open>nodes.forEach\<close>: \<open>clock k\<close> is what \<open>Date.now()\<close> returns while the element at
  index \<open>k\<close> is visited.\<close>

fun forEach :: "orbital \<Rightarrow> real \<Rightarrow> (nat \<Rightarrow> real) \<Rightarrow> nat \<Rightarrow> ref list \<Rightarrow> store \<Rightarrow> store" where
  "forEach F alpha clock k [] h = h"
| "forEach F alpha clock k (r # rs) h =
     forEach F alpha clock (Suc k) rs (visit F alpha (clock k) r h)"

definition force :: "orbital \<Rightarrow> real \<Rightarrow> (nat \<Rightarrow> real) \<Rightarrow> store \<Rightarrow> store" where
  "force F alpha clock h =
     (if strength F \<le> 0 then h else forEach F alpha clock 0 (nodes F) h)"

subsection \<open>setupOrbitalPhysics\<close>

text \<open>The errors of the code are values. \<open>Error msg\<close> is \<open>new Error(msg)\<close>;
  \<open>NotFound kind name\<close> is the \<open>Error\<close> of the getters of the resource manager, whose
  message is the kind, the quoted name and \<open>not found in ResourceManager\<close>;
  \<open>RangeError\<close> is what a typed array of negative length raises.\<close>

datatype error = Error string | NotFound string string | RangeError

text \<open>The host simulation as the code uses it: \<open>nodes()\<close>, the registry behind
  \<open>force(name)\<close> and \<open>force(name, f)\<close>, and the listener of each event behind \<open>on\<close>.
  The only listener the code registers is the arrow function of line 147.\<close>

datatype listener = RefreshOrbital

record simulation =
  sim_nodes :: "ref list"
  sim_force :: "string \<rightharpoonup> orbital"
  sim_on :: "string \<rightharpoonup> listener"

text \<open>The force graph: what \<open>d3Force()\<close> returns (nothing when the simulation is not
  available) and \<open>graphData().links\<close>.\<close>

record forceGraph =
  d3Force :: "simulation option"
  graphData_links :: "link list option"

text \<open>\<open>forceGraph\<close> is \<open>None\<close> for a null or undefined reference; the default of
  \<open>orbitalStrength\<close> is 1 and is written by the caller. The result holds the force
  handle and the force graph with its simulation updated.\<close>

definition setupOrbitalPhysics :: "forceGraph option \<Rightarrow> real \<Rightarrow> error + (orbital \<times> forceGraph)" where
  "setupOrbitalPhysics forceGraph orbitalStrength =
     (case forceGraph of
        None \<Rightarrow> Inl (Error ''Force graph reference is required'')
      | Some g \<Rightarrow>
          (case d3Force g of
             None \<Rightarrow> Inl (Error ''Simulation not available from force graph'')
           | Some simulation \<Rightarrow>
               (let orbital = set_strength orbitalStrength orbitalForce;
                    simulation1 = simulation\<lparr>sim_force := (sim_force simulation)(''orbital'' \<mapsto> orbital)\<rparr>;
                    simulation2 = simulation1\<lparr>sim_on := (sim_on simulation1)(''tick'' \<mapsto> RefreshOrbital)\<rparr>
                in Inr (orbital, g\<lparr>d3Force := Some simulation2\<rparr>))))"

text \<open>The listener of line 147, run at a tick.\<close>

definition on_tick :: "forceGraph \<Rightarrow> simulation \<Rightarrow> simulation" where
  "on_tick g simulation =
     (case (sim_force simulation ''orbital'', graphData_links g) of
        (Some f, Some ls) \<Rightarrow>
          simulation\<lparr>sim_force :=
            (sim_force simulation)(''orbital'' \<mapsto> initialize (sim_nodes simulation) (Some ls) f)\<rparr>
      | _ \<Rightarrow> simulation)"

section \<open>Resource manager and performance monitor (utils/ResourceManager.ts)\<close>

datatype detail = High | Medium | Low

text \<open>The resources of the rendering library are kept as far as the code fixes them: a
  sphere by its radius and segment counts, a texture by the canvas it is drawn on (size,
  outer radius of the radial gradient, colour stops as position and alpha) or as the empty
  texture used without a document, a line material by its fields. Colours are a string or
  a number.\<close>

datatype geometry = SphereGeometry real int int

datatype texture = Texture_empty | Texture_canvas nat nat real "(real \<times> real) list"

datatype color = ColorString string | ColorNumber nat

record material =
  mat_transparent :: bool
  mat_opacity :: real
  mat_color :: "color option"

record ResourceManager =
  geometries :: "string \<rightharpoonup> geometry"
  materials :: "string \<rightharpoonup> material"
  textures :: "string \<rightharpoonup> texture"
  parameters :: "string \<rightharpoonup> int"

definition new_ResourceManager :: ResourceManager where
  "new_ResourceManager =
     \<lparr>geometries = Map.empty, materials = Map.empty, textures = Map.empty,
      parameters = Map.empty\<rparr>"

text \<open>The \<open>add\<close> methods dispose the resource they replace; disposal acts on the graphics
  library only and leaves no trace in the manager.\<close>

definition addGeometry :: "string \<Rightarrow> geometry \<Rightarrow> ResourceManager \<Rightarrow> ResourceManager" where
  "addGeometry name g rm = rm\<lparr>geometries := (geometries rm)(name \<mapsto> g)\<rparr>"

definition getGeometry :: "string \<Rightarrow> ResourceManager \<Rightarrow> error + geometry" where
  "getGeometry name rm =
     (case geometries rm name of None \<Rightarrow> Inl (NotFound ''Geometry'' name) | Some g \<Rightarrow> Inr g)"

definition addMaterial :: "string \<Rightarrow> material \<Rightarrow> ResourceManager \<Rightarrow> ResourceManager" where
  "addMaterial name m rm = rm\<lparr>materials := (materials rm)(name \<mapsto> m)\<rparr>"

definition getMaterial :: "string \<Rightarrow> ResourceManager \<Rightarrow> error + material" where
  "getMaterial name rm =
     (case materials rm name of None \<Rightarrow> Inl (NotFound ''Material'' name) | Some m \<Rightarrow> Inr m)"

definition addTexture :: "string \<Rightarrow> texture \<Rightarrow> ResourceManager \<Rightarrow> ResourceManager" where
  "addTexture name t rm = rm\<lparr>textures := (textures rm)(name \<mapsto> t)\<rparr>"

definition getTexture :: "string \<Rightarrow> ResourceManager \<Rightarrow> error + texture" where
  "getTexture name rm =
     (case textures rm name of None \<Rightarrow> Inl (NotFound ''Texture'' name) | Some t \<Rightarrow> Inr t)"

definition setParameter :: "string \<Rightarrow> int \<Rightarrow> ResourceManager \<Rightarrow> ResourceManager" where
  "setParameter name v rm = rm\<lparr>parameters := (parameters rm)(name \<mapsto> v)\<rparr>"

definition getParameter :: "string \<Rightarrow> ResourceManager \<Rightarrow> int option" where
  "getParameter name rm = parameters rm name"

definition dispose :: "ResourceManager \<Rightarrow> ResourceManager" where
  "dispose rm =
     rm\<lparr>geometries := Map.empty, materials := Map.empty, textures := Map.empty,
        parameters := Map.empty\<rparr>"

text \<open>The fields of \<open>PerformanceMonitor\<close> that hold numbers and flags; the callback and
  the memory history are not part of the model.\<close>

record PerformanceMonitor =
  fps :: real
  frames :: real
  lastTime :: real
  rafId :: "nat option"
  interval :: real
  tracking :: bool

definition new_PerformanceMonitor :: PerformanceMonitor where
  "new_PerformanceMonitor =
     \<lparr>fps = 0, frames = 0, lastTime = 0, rafId = None, interval = 1000, tracking = False\<rparr>"

definition getFPS :: "PerformanceMonitor \<Rightarrow> real" where
  "getFPS m = fps m"

definition getRecommendedQualityLevel :: "PerformanceMonitor \<Rightarrow> detail" where
  "getRecommendedQualityLevel m =
     (let fps = getFPS m
      in if fps < 15 then Low else if fps < 30 then Medium else High)"

section \<open>Node resources (rendering/NodeObjects.ts)\<close>

text \<open>The module variable \<open>resourceManager\<close>.\<close>

record NodeObjects =
  resourceManager :: "ResourceManager option"

text \<open>\<open>document\<close> tells whether a document exists, that is whether a canvas can be
  drawn.\<close>

definition createGlowTexture :: "bool \<Rightarrow> texture" where
  "createGlowTexture document =
     (if \<not> document then Texture_empty
      else Texture_canvas 128 128 (128 / 2) [(0, 1), (0.2, 0.8), (0.4, 0.4), (1, 0)])"

definition getResolution :: "detail \<Rightarrow> int \<Rightarrow> int" where
  "getResolution detail base =
     (case detail of
        High \<Rightarrow> base
      | Medium \<Rightarrow> max 8 \<lfloor>real_of_int base * 0.7\<rfloor>
      | Low \<Rightarrow> max 6 \<lfloor>real_of_int base * 0.5\<rfloor>)"

definition initNodeResources :: "bool \<Rightarrow> detail \<Rightarrow> NodeObjects \<Rightarrow> ResourceManager \<times> NodeObjects" where
  "initNodeResources document detail st =
     (case resourceManager st of
        Some rm \<Rightarrow> (rm, st)
      | None \<Rightarrow>
          (let rm0 = new_ResourceManager;
               rm1 = addGeometry ''rootNode''
                       (SphereGeometry 1 (getResolution detail 32) (getResolution detail 32)) rm0;
               rm2 = addGeometry ''branchNode''
                       (SphereGeometry 1 (getResolution detail 24) (getResolution detail 24)) rm1;
               rm3 = addGeometry ''leafNode''
                       (SphereGeometry 1 (getResolution detail 16) (getResolution detail 16)) rm2;
               glowTexture = createGlowTexture document;
               rm4 = addTexture ''glow'' glowTexture rm3
           in (rm4, st\<lparr>resourceManager := Some rm4\<rparr>)))"

definition disposeNodeResources :: "NodeObjects \<Rightarrow> NodeObjects" where
  "disposeNodeResources st =
     (case resourceManager st of
        Some rm \<Rightarrow> st\<lparr>resourceManager := None\<rparr>
      | None \<Rightarrow> st)"

section \<open>Link objects and particle flow (rendering/LinkObjects.ts)\<close>

text \<open>The module variable \<open>linkResourceManager\<close>.\<close>

record LinkObjects =
  linkResourceManager :: "ResourceManager option"

definition createParticleTexture :: "bool \<Rightarrow> texture" where
  "createParticleTexture document =
     (if \<not> document then Texture_empty
      else Texture_canvas 32 32 (32 / 4) [(0, 1), (0.5, 0.5), (1, 0)])"

definition initLinkResources :: "bool \<Rightarrow> detail \<Rightarrow> LinkObjects \<Rightarrow> ResourceManager \<times> LinkObjects" where
  "initLinkResources document detail st =
     (case linkResourceManager st of
        Some rm \<Rightarrow> (rm, st)
      | None \<Rightarrow>
          (let rm0 = new_ResourceManager;
               particleTexture = createParticleTexture document;
               rm1 = addTexture ''particle'' particleTexture rm0;
               linkMaterial = \<lparr>mat_transparent = True, mat_opacity = 0.6, mat_color = None\<rparr>;
               rm2 = addMaterial ''linkBase'' linkMaterial rm1;
               maxParticles = (case detail of High \<Rightarrow> 50 | Medium \<Rightarrow> 25 | Low \<Rightarrow> 10);
               rm3 = setParameter ''maxParticles'' maxParticles rm2
           in (rm3, st\<lparr>linkResourceManager := Some rm3\<rparr>)))"

definition disposeLinkResources :: "LinkObjects \<Rightarrow> LinkObjects" where
  "disposeLinkResources st =
     (case linkResourceManager st of
        Some rm \<Rightarrow> st\<lparr>linkResourceManager := None\<rparr>
      | None \<Rightarrow> st)"

text \<open>A point is the \<open>x\<close>, \<open>y\<close>, \<open>z\<close> of an object. The metadata stored on a particle
  system, and the system itself: the buffer of positions (three numbers for each
  particle) and its material.\<close>

type_synonym point = "real \<times> real \<times> real"

record metadata =
  md_count :: int
  md_speed :: real
  md_length :: real
  md_dir :: point
  md_offsets :: "real list"

record points =
  positions :: "real list"
  pt_color :: color
  pt_size :: real
  pt_map :: texture
  metadata :: "metadata option"

text \<open>The body of the loop of \<open>createParticleSystem\<close>; \<open>random i\<close> is what
  \<open>Math.random()\<close> returns at round \<open>i\<close>. Positions and offsets are
  \<open>Float32Array\<close>s: what is written is kept in single precision, while the position is
  computed from the draw itself. A write to a typed array at an index beyond its length is
  ignored, as list update is.\<close>

definition placeParticle :: "point \<Rightarrow> point \<Rightarrow> (nat \<Rightarrow> real) \<Rightarrow> nat \<Rightarrow> real list \<times> real list \<Rightarrow> real list \<times> real list" where
  "placeParticle source dir random i buf =
     (case (source, dir, buf) of
        ((sx, sy, sz), (dx, dy, dz), (pos, offs)) \<Rightarrow>
          (let offset = random i
           in (pos[i * 3 := float32 (sx + dx * offset),
                   i * 3 + 1 := float32 (sy + dy * offset),
                   i * 3 + 2 := float32 (sz + dz * offset)],
               offs[i := float32 offset])))"

definition createParticleSystem :: "LinkObjects \<Rightarrow> (nat \<Rightarrow> real) \<Rightarrow> point \<Rightarrow> point \<Rightarrow> color \<Rightarrow> real \<Rightarrow> int \<Rightarrow> real \<Rightarrow> error + points" where
  "createParticleSystem st random source target col speed count sz =
     (case linkResourceManager st of
        None \<Rightarrow> Inl (Error ''Link resource manager is not initialized'')
      | Some rm \<Rightarrow>
          (case (source, target) of
             ((sx, sy, sz'), (tx, ty, tz)) \<Rightarrow>
               (let dir = (tx - sx, ty - sy, tz - sz');
                    len = (case dir of (dx, dy, dz) \<Rightarrow> sqrt (dx * dx + dy * dy + dz * dz))
                in case getTexture ''particle'' rm of
                     Inl e \<Rightarrow> Inl e
                   | Inr tex \<Rightarrow>
                       if count < 0 then Inl RangeError
                       else
                         (case fold (placeParticle source dir random) [0..<nat count]
                                 (replicate (nat (count * 3)) 0, replicate (nat count) 0) of
                            (pos, offs) \<Rightarrow>
                              Inr \<lparr>positions = pos, pt_color = col, pt_size = sz, pt_map = tex,
                                   metadata = Some \<lparr>md_count = count, md_speed = speed,
                                                    md_length = len, md_dir = dir,
                                                    md_offsets = offs\<rparr>\<rparr>))))"

text \<open>The body of the loop of \<open>updateParticles\<close>. \<open>offsets[i] += speed\<close> stores the sum
  in single precision, the test \<open>offsets[i] > 1\<close> reads the stored value, and
  \<open>offsets[i] -= 1\<close> stores again. An offset read beyond the array is
  \<open>undefined\<close> in the code; this cannot happen for metadata built by
  \<open>createParticleSystem\<close>, whose count is the length of the offsets, and the model leaves
  the buffers alone there.\<close>

definition moveParticle :: "point \<Rightarrow> point \<Rightarrow> real \<Rightarrow> real \<Rightarrow> nat \<Rightarrow> real list \<times> real list \<Rightarrow> real list \<times> real list" where
  "moveParticle source dir len speed i buf =
     (case (source, dir, buf) of
        ((sx, sy, sz), (dx, dy, dz), (pos, offs)) \<Rightarrow>
          if i < length offs then
            (let o1 = float32 (offs ! i + speed);
                 o2 = (if o1 > 1 then float32 (o1 - 1) else o1)
             in (pos[i * 3 := float32 (sx + dx * len * o2),
                     i * 3 + 1 := float32 (sy + dy * len * o2),
                     i * 3 + 2 := float32 (sz + dz * len * o2)],
                 offs[i := o2]))
          else (pos, offs))"

definition updateParticles :: "points \<Rightarrow> point \<Rightarrow> point \<Rightarrow> points" where
  "updateParticles particleSystem source target =
     (case metadata particleSystem of
        None \<Rightarrow> particleSystem
      | Some md \<Rightarrow>
          (case (source, target) of
             ((sx, sy, sz), (tx, ty, tz)) \<Rightarrow>
               (let dx = tx - sx; dy = ty - sy; dz = tz - sz;
                    len = sqrt (dx * dx + dy * dy + dz * dz)
                in if len = 0 then particleSystem
                   else
                     (let dir = (dx / len, dy / len, dz / len)
                      in case fold (moveParticle source dir len (md_speed md))
                                [0..<nat (md_count md)]
                                (positions particleSystem, md_offsets md) of
                           (pos, offs) \<Rightarrow>
                             particleSystem
                               \<lparr>positions := pos,
                                metadata := Some (md\<lparr>md_dir := dir, md_length := len,
                                                     md_offsets := offs\<rparr>)\<rparr>))))"

text \<open>The group built for a link: the line, and with particle flow the particle system
  and the two objects the stored update function reads the positions from.\<close>

record line =
  line_positions :: "real list"
  line_material :: material

record group =
  linkLine :: line
  particleSystem :: "points option"
  updateEnds :: "(endpoint \<times> endpoint) option"

text \<open>\<open>typeof e === 'object' ? e : {x: 0, y: 0, z: 0}\<close>, read in the store.\<close>

definition position :: "store \<Rightarrow> endpoint \<Rightarrow> point" where
  "position h e =
     (case e of Obj r \<Rightarrow> (node_x (h r), node_y (h r), node_z (h r)) | Id _ \<Rightarrow> (0, 0, 0))"

text \<open>The defaults of \<open>createLinkObject\<close> (\<open>showParticles = true\<close>,
  \<open>particleSpeed = 0.005\<close>, \<open>particleSize = 1.0\<close>) and of \<open>initLinkResources\<close>
  (\<open>'medium'\<close>) are written by the caller.\<close>

definition createLinkObject :: "bool \<Rightarrow> (nat \<Rightarrow> real) \<Rightarrow> store \<Rightarrow> link \<Rightarrow> bool \<Rightarrow> real \<Rightarrow> real \<Rightarrow> LinkObjects \<Rightarrow> error + (group \<times> LinkObjects)" where
  "createLinkObject document random h l showParticles particleSpeed particleSize st0 =
     (let st = (if linkResourceManager st0 = None then snd (initLinkResources document Medium st0)
                else st0)
      in case linkResourceManager st of
           None \<Rightarrow> Inl (Error ''Failed to initialize link resources'')
         | Some rm \<Rightarrow>
             (let source = position h (link_source l);
                  target = position h (link_target l);
                  linkColor = (case link_color l of
                                 None \<Rightarrow> ColorNumber 0xaaaaaa
                               | Some c \<Rightarrow> if c = [] then ColorNumber 0xaaaaaa else ColorString c);
                  line_pos = (case (source, target) of
                                ((sx, sy, sz), (tx, ty, tz)) \<Rightarrow>
                                  map float32 [sx, sy, sz, tx, ty, tz])
              in case getMaterial ''linkBase'' rm of
                   Inl e \<Rightarrow> Inl e
                 | Inr baseMaterial \<Rightarrow>
                     (let linkMaterial = baseMaterial
                            \<lparr>mat_color := Some linkColor,
                             mat_opacity :=
                               min (0.3 + (if link_value l \<noteq> 0 then link_value l else 1) * 0.05) 0.8\<rparr>;
                          ln = \<lparr>line_positions = line_pos, line_material = linkMaterial\<rparr>
                      in if showParticles \<and> link_value l > 0 then
                           (let maxParticles = (case getParameter ''maxParticles'' rm of
                                                  None \<Rightarrow> 25
                                                | Some v \<Rightarrow> if v = 0 then 25 else v);
                                particleCount = min \<lceil>link_value l * 2\<rceil> maxParticles
                            in case createParticleSystem st random source target linkColor
                                      particleSpeed particleCount particleSize of
                                 Inl e \<Rightarrow> Inl e
                               | Inr ps \<Rightarrow>
                                   Inr (\<lparr>linkLine = ln, particleSystem = Some ps,
                                         updateEnds = Some (link_source l, link_target l)\<rparr>, st))
                         else Inr (\<lparr>linkLine = ln, particleSystem = None, updateEnds = None\<rparr>, st))))"

text \<open>Calling the update function stored on a group, and \<open>updateLinkObjects\<close> over the
  groups of a scene.\<close>

definition run_updateParticles :: "store \<Rightarrow> group \<Rightarrow> group" where
  "run_updateParticles h g =
     (case (particleSystem g, updateEnds g) of
        (Some ps, Some (s, t)) \<Rightarrow>
          g\<lparr>particleSystem := Some (updateParticles ps (position h s) (position h t))\<rparr>
      | _ \<Rightarrow> g)"

definition updateLinkObjects :: "store \<Rightarrow> group list option \<Rightarrow> group list option" where
  "updateLinkObjects h scene =
     (case scene of None \<Rightarrow> None | Some gs \<Rightarrow> Some (map (run_updateParticles h) gs))"

text \<open>What is stored on a built object: the offsets in the metadata of a particle system
  (none without metadata) and the particle count of the particle system of a group.\<close>

definition offsets_of :: "points \<Rightarrow> real list" where
  "offsets_of ps = (case metadata ps of None \<Rightarrow> [] | Some md \<Rightarrow> md_offsets md)"

definition count_of :: "group \<Rightarrow> int option" where
  "count_of g =
     (case particleSystem g of
        None \<Rightarrow> None
      | Some ps \<Rightarrow> (case metadata ps of None \<Rightarrow> None | Some md \<Rightarrow> Some (md_count md)))"

section \<open>A small ecosystem\<close>

text \<open>A root of size 10 at the origin and a leaf of size 2, joined by a link of value 1.
  The leaf comes first in the node array, so that its index is 0 and, at clock reading 0,
  its orbital target is the point at the orbit radius 52 on the x axis.\<close>

definition ex_root :: node where
  "ex_root = \<lparr>node_id = ''r'', node_type = Root, node_size = 10, node_x = 0, node_y = 0,
     node_z = 0, node_vx = 1, node_vy = 2, node_vz = 3\<rparr>"

definition ex_leaf :: node where
  "ex_leaf = \<lparr>node_id = ''a'', node_type = Leaf, node_size = 2, node_x = 100, node_y = 0,
     node_z = 0, node_vx = 0, node_vy = 0, node_vz = 0\<rparr>"

definition ex_store :: store where
  "ex_store = (\<lambda>_. ex_root)(1 := ex_leaf)"

definition ex_link :: link where
  "ex_link = \<lparr>link_source = Obj 1, link_target = Obj 0, link_value = 1, link_color = None\<rparr>"

definition ex_force :: orbital where
  "ex_force = \<lparr>nodes = [1, 0], links = [ex_link], strength = 1, focalPoint = None\<rparr>"

text \<open>The same ecosystem with the leaf on its orbital target.\<close>

definition ex_store_on_orbit :: store where
  "ex_store_on_orbit = (\<lambda>_. ex_root)(1 := ex_leaf\<lparr>node_x := 52\<rparr>)"

text \<open>A force graph whose simulation is available and holds the two nodes.\<close>

definition ex_graph :: forceGraph where
  "ex_graph = \<lparr>d3Force = Some \<lparr>sim_nodes = [1, 0], sim_force = Map.empty, sim_on = Map.empty\<rparr>,
                graphData_links = Some [ex_link]\<rparr>"

text \<open>The link module initialised at the medium tier without a document, and the particle
  system of one particle built there on the segment from the origin to \<open>(1, 0, 0)\<close> with
  speed one half when the random draw is one half.\<close>

definition ex_links :: LinkObjects where
  "ex_links = snd (initLinkResources False Medium \<lparr>linkResourceManager = None\<rparr>)"

definition ex_particles :: points where
  "ex_particles =
     \<lparr>positions = [1 / 2, 0, 0], pt_color = ColorNumber 0xaaaaaa, pt_size = 1,
      pt_map = Texture_empty,
      metadata = Some \<lparr>md_count = 1, md_speed = 1 / 2, md_length = 1, md_dir = (1, 0, 0),
                       md_offsets = [1 / 2]\<rparr>\<rparr>"

text \<open>The particle system built in the same way when the random draw is \<open>1 - 1 / 2 ^ 30\<close>.\<close>

definition ex_particles_edge :: points where
  "ex_particles_edge =
     \<lparr>positions = [1, 0, 0], pt_color = ColorNumber 0xaaaaaa, pt_size = 1,
      pt_map = Texture_empty,
      metadata = Some \<lparr>md_count = 1, md_speed = 1 / 2, md_length = 1, md_dir = (1, 0, 0),
                       md_offsets = [1]\<rparr>\<rparr>"

section \<open>Properties of the orbital force\<close>

lemma visit_root: "node_type (h r) = Root \<Longrightarrow> visit F alpha now r h = h"
  by (simp add: visit_def orbitalTarget_def)

lemma visit_other: "q \<noteq> r \<Longrightarrow> visit F alpha now r h q = h q"
  by (simp add: visit_def Let_def split: option.splits prod.splits)

lemma visit_type: "node_type (visit F alpha now r h q) = node_type (h q)"
  by (simp add: visit_def Let_def split: option.splits prod.splits)

lemma visit_keeps_root:
  "node_type (h q) = Root \<Longrightarrow> visit F alpha now r h q = h q"
  by (cases "q = r") (simp_all add: visit_root visit_other)

lemma forEach_keeps_root:
  "node_type (h q) = Root \<Longrightarrow> forEach F alpha clock k rs h q = h q"
proof (induction rs arbitrary: h k)
  case Nil
  then show ?case by simp
next
  case (Cons r rs)
  have "node_type (visit F alpha (clock k) r h q) = Root"
    using Cons.prems by (simp add: visit_type)
  then have "forEach F alpha clock (Suc k) rs (visit F alpha (clock k) r h) q
             = visit F alpha (clock k) r h q"
    by (rule Cons.IH)
  then show ?case
    using Cons.prems by (simp add: visit_keeps_root)
qed

text \<open>A visit writes velocities only, and the orbital target reads none: the targets
  computed during one invocation are those of the store the invocation started from.\<close>

lemma visit_static:
  "node_id (visit F alpha now r h q) = node_id (h q)"
  "node_size (visit F alpha now r h q) = node_size (h q)"
  "node_x (visit F alpha now r h q) = node_x (h q)"
  "node_y (visit F alpha now r h q) = node_y (h q)"
  "node_z (visit F alpha now r h q) = node_z (h q)"
  by (simp_all add: visit_def Let_def split: option.splits prod.splits)

lemma isParentLink_static:
  assumes "\<And>q. node_id (h' q) = node_id (h q)" "\<And>q. node_type (h' q) = node_type (h q)"
  shows "isParentLink h' (h' r) = isParentLink h (h r)"
  by (rule ext) (simp add: isParentLink_def assms split: endpoint.splits)

lemma orbitalTarget_static:
  assumes "\<And>q. node_id (h' q) = node_id (h q)" "\<And>q. node_type (h' q) = node_type (h q)"
    "\<And>q. node_size (h' q) = node_size (h q)" "\<And>q. node_x (h' q) = node_x (h q)"
    "\<And>q. node_y (h' q) = node_y (h q)" "\<And>q. node_z (h' q) = node_z (h q)"
  shows "orbitalTarget F now r h' = orbitalTarget F now r h"
proof -
  have p: "isParentLink h' (h' r) = isParentLink h (h r)"
    using assms(1,2) by (rule isParentLink_static)
  show ?thesis
    unfolding orbitalTarget_def Let_def p
    by (simp add: assms calculateOrbitRadius_def split: list.splits endpoint.splits)
qed

lemma orbitalTarget_visit:
  "orbitalTarget F now r (visit F' alpha' now' r' h) = orbitalTarget F now r h"
  by (rule orbitalTarget_static) (simp_all add: visit_static visit_type)

lemma visit_at_cong:
  "orbitalTarget F now r h' = orbitalTarget F now r h \<Longrightarrow> h' r = h r \<Longrightarrow>
   visit F alpha now r h' r = visit F alpha now r h r"
  by (simp add: visit_def Let_def split: option.splits prod.splits)

text \<open>When the node array holds each object once, what an invocation does to the object at
  index \<open>k\<close> is what its own visit does to it.\<close>

lemma forEach_outside:
  "q \<notin> set rs \<Longrightarrow> forEach F alpha clock k rs h q = h q"
  by (induction rs arbitrary: h k) (simp_all add: visit_other)

lemma forEach_at:
  "distinct rs \<Longrightarrow> j < length rs \<Longrightarrow>
   forEach F alpha clock k rs h (rs ! j) = visit F alpha (clock (k + j)) (rs ! j) h (rs ! j)"
proof (induction rs arbitrary: h k j)
  case Nil
  then show ?case by simp
next
  case (Cons r rs)
  show ?case
  proof (cases j)
    case 0
    then show ?thesis
      using Cons.prems by (simp add: forEach_outside)
  next
    case (Suc i)
    let ?h1 = "visit F alpha (clock k) r h"
    have i: "i < length rs" and d: "distinct rs" and ne: "rs ! i \<noteq> r"
      using Cons.prems Suc by auto
    have "forEach F alpha clock (Suc k) rs ?h1 (rs ! i)
          = visit F alpha (clock (Suc k + i)) (rs ! i) ?h1 (rs ! i)"
      using d i by (rule Cons.IH)
    also have "\<dots> = visit F alpha (clock (Suc k + i)) (rs ! i) h (rs ! i)"
      by (rule visit_at_cong) (simp_all add: orbitalTarget_visit visit_other ne)
    finally show ?thesis
      using Suc by simp
  qed
qed

lemma force_at:
  assumes "distinct (nodes F)" "k < length (nodes F)" "0 < strength F"
  shows "force F alpha clock h (nodes F ! k) = visit F alpha (clock k) (nodes F ! k) h (nodes F ! k)"
  using assms by (simp add: force_def forEach_at)

text \<open>One visit: nothing at distance zero, otherwise a velocity change whose length is the
  absolute value of the force magnitude.\<close>

lemma visit_zero_distance:
  "orbitalTarget F now r h = Some t \<Longrightarrow> distanceTo t (h r) = 0 \<Longrightarrow> visit F alpha now r h = h"
  by (cases t) (simp add: visit_def Let_def)

lemma sqrt_scaled:
  fixes dx dy dz d m :: real
  assumes "d = sqrt (dx * dx + dy * dy + dz * dz)" "d \<noteq> 0"
  shows "sqrt ((dx / d * m)\<^sup>2 + (dy / d * m)\<^sup>2 + (dz / d * m)\<^sup>2) = \<bar>m\<bar>"
proof -
  have nn: "0 \<le> dx * dx + dy * dy + dz * dz" by simp
  have dd: "d * d = dx * dx + dy * dy + dz * dz"
    using assms(1) nn by simp
  have "(dx / d * m)\<^sup>2 + (dy / d * m)\<^sup>2 + (dz / d * m)\<^sup>2
        = (dx * dx + dy * dy + dz * dz) / (d * d) * m\<^sup>2"
    using assms(2) by (simp add: power2_eq_square field_simps)
  also have "\<dots> = m\<^sup>2"
    by (simp only: dd [symmetric]) (simp add: assms(2))
  finally show ?thesis by simp
qed

lemma visit_delta:
  assumes t: "orbitalTarget F now r h = Some t" and d: "distanceTo t (h r) \<noteq> 0"
  shows "sqrt ((node_vx (visit F alpha now r h r) - node_vx (h r))\<^sup>2
             + (node_vy (visit F alpha now r h r) - node_vy (h r))\<^sup>2
             + (node_vz (visit F alpha now r h r) - node_vz (h r))\<^sup>2)
         = \<bar>min (distanceTo t (h r)) 2 * alpha * strength F\<bar>"
proof -
  obtain tx ty tz where tt: "t = (tx, ty, tz)" by (cases t)
  let ?d = "distanceTo (tx, ty, tz) (h r)"
  have dd: "?d = sqrt ((tx - node_x (h r)) * (tx - node_x (h r))
      + (ty - node_y (h r)) * (ty - node_y (h r)) + (tz - node_z (h r)) * (tz - node_z (h r)))"
    by (simp add: distanceTo_def Let_def)
  have nz: "?d \<noteq> 0" using d tt by simp
  have "sqrt (((tx - node_x (h r)) / ?d * (min ?d 2 * alpha * strength F))\<^sup>2
            + ((ty - node_y (h r)) / ?d * (min ?d 2 * alpha * strength F))\<^sup>2
            + ((tz - node_z (h r)) / ?d * (min ?d 2 * alpha * strength F))\<^sup>2)
        = \<bar>min ?d 2 * alpha * strength F\<bar>"
    using dd nz by (rule sqrt_scaled)
  then show ?thesis
    using t nz by (simp add: visit_def Let_def tt)
qed

lemma ex_target: "orbitalTarget ex_force 0 1 ex_store = Some (52, 0, 0)"
  by (simp add: orbitalTarget_def ex_force_def ex_store_def ex_leaf_def ex_root_def ex_link_def
      isParentLink_def calculateOrbitRadius_def js_rem_def)

lemma ex_dist: "distanceTo (52, 0, 0) (ex_store 1) = 48"
proof -
  have "sqrt 2304 = 48" by (rule real_sqrt_unique) simp_all
  then show ?thesis by (simp add: distanceTo_def ex_store_def ex_leaf_def)
qed

text \<open>In the small ecosystem the force does move the leaf: at alpha one half its
  velocity along x goes from 0 to -1.\<close>

lemma ex_leaf_moves:
  "node_vx (force ex_force (1 / 2) (\<lambda>_. 0) ex_store 1) = -1"
proof -
  have v: "visit ex_force (1 / 2) 0 1 ex_store 1 = ex_leaf\<lparr>node_vx := -1\<rparr>"
    using ex_target ex_dist
    by (simp add: visit_def Let_def ex_force_def) (simp add: ex_store_def ex_leaf_def)
  have "force ex_force (1 / 2) (\<lambda>_. 0) ex_store 1
        = visit ex_force (1 / 2) 0 0 (visit ex_force (1 / 2) 0 1 ex_store) 1"
    by (simp add: force_def ex_force_def)
  also have "\<dots> = visit ex_force (1 / 2) 0 1 ex_store 1"
    by (simp add: visit_other)
  finally show ?thesis using v by simp
qed

lemma ex_target_on_orbit: "orbitalTarget ex_force 0 1 ex_store_on_orbit = Some (52, 0, 0)"
  by (simp add: orbitalTarget_def ex_force_def ex_store_on_orbit_def ex_leaf_def ex_root_def
      ex_link_def isParentLink_def calculateOrbitRadius_def js_rem_def)

text \<open>
  Claim C1 (root exclusion). Whatever the alpha, the clock readings, the node array and
  the links of the force are, every node object of kind root has the same \<open>vx\<close>, \<open>vy\<close>
  and \<open>vz\<close> after an invocation of the force as before it.
\<close>

theorem root_exclusion:
  "node_type (h r) = Root \<Longrightarrow>
     node_vx (force F alpha clock h r) = node_vx (h r)
   \<and> node_vy (force F alpha clock h r) = node_vy (h r)
   \<and> node_vz (force F alpha clock h r) = node_vz (h r)"
  by (simp add: force_def forEach_keeps_root)

theorem root_exclusion_witness:
  "node_type (ex_store 0) = Root
   \<and> node_vx (force ex_force (1 / 2) (\<lambda>_. 0) ex_store 0) = 1
   \<and> node_vy (force ex_force (1 / 2) (\<lambda>_. 0) ex_store 0) = 2
   \<and> node_vz (force ex_force (1 / 2) (\<lambda>_. 0) ex_store 0) = 3"
proof -
  have t: "node_type (ex_store 0) = Root"
    by (simp add: ex_store_def ex_root_def)
  show ?thesis
    using t root_exclusion [of ex_store 0 ex_force "1 / 2" "\<lambda>_. 0"]
    by (simp add: ex_store_def ex_root_def)
qed

text \<open>
  Claim C2 (force magnitude cap). Let the node array hold each object once, let the
  strength be positive and alpha, the decay parameter of the simulation, be non-negative.
  For a node that has an orbital target at a distance other than zero, the velocity change
  of one invocation has Euclidean length min(distance, 2) times alpha times strength; it
  is therefore at most 2 times alpha times strength, and equal to it from distance 2 on.
\<close>

theorem delta_magnitude:
  assumes "distinct (nodes F)" and "k < length (nodes F)" and "nodes F ! k = r"
    and "0 < strength F" and "0 \<le> alpha"
    and "orbitalTarget F (clock k) r h = Some t" and "distanceTo t (h r) \<noteq> 0"
  shows "(let h' = force F alpha clock h;
              m = sqrt ((node_vx (h' r) - node_vx (h r))\<^sup>2
                      + (node_vy (h' r) - node_vy (h r))\<^sup>2
                      + (node_vz (h' r) - node_vz (h r))\<^sup>2)
          in m = min (distanceTo t (h r)) 2 * alpha * strength F
             \<and> m \<le> 2 * alpha * strength F
             \<and> (2 \<le> distanceTo t (h r) \<longrightarrow> m = 2 * alpha * strength F))"
proof -
  let ?d = "distanceTo t (h r)"
  have f: "force F alpha clock h r = visit F alpha (clock k) r h r"
    using force_at [OF assms(1,2,4), of alpha clock h] assms(3) by simp
  have dn: "0 \<le> ?d"
    by (cases t) (simp add: distanceTo_def Let_def)
  have as: "0 \<le> alpha * strength F"
    using assms(4,5) by simp
  have nn: "0 \<le> min ?d 2 * alpha * strength F"
    using dn as by (simp add: mult.assoc)
  have m: "sqrt ((node_vx (visit F alpha (clock k) r h r) - node_vx (h r))\<^sup>2
               + (node_vy (visit F alpha (clock k) r h r) - node_vy (h r))\<^sup>2
               + (node_vz (visit F alpha (clock k) r h r) - node_vz (h r))\<^sup>2)
           = min ?d 2 * alpha * strength F"
    using visit_delta [OF assms(6,7), of alpha] nn by simp
  have le: "min ?d 2 * (alpha * strength F) \<le> 2 * (alpha * strength F)"
    using as by (intro mult_right_mono) simp_all
  show ?thesis
    unfolding Let_def f m using le by (simp add: mult.assoc min_def)
qed

theorem delta_magnitude_witness:
  "distinct (nodes ex_force) \<and> 0 < length (nodes ex_force) \<and> nodes ex_force ! 0 = 1
   \<and> 0 < strength ex_force \<and> (0::real) \<le> 1 / 2
   \<and> orbitalTarget ex_force 0 1 ex_store = Some (52, 0, 0)
   \<and> distanceTo (52, 0, 0) (ex_store 1) = 48
   \<and> sqrt ((node_vx (force ex_force (1 / 2) (\<lambda>_. 0) ex_store 1) - node_vx (ex_store 1))\<^sup>2
         + (node_vy (force ex_force (1 / 2) (\<lambda>_. 0) ex_store 1) - node_vy (ex_store 1))\<^sup>2
         + (node_vz (force ex_force (1 / 2) (\<lambda>_. 0) ex_store 1) - node_vz (ex_store 1))\<^sup>2) = 1"
proof -
  have a: "distinct (nodes ex_force)" "0 < length (nodes ex_force)" "nodes ex_force ! 0 = 1"
    "0 < strength ex_force"
    by (simp_all add: ex_force_def)
  have b: "(0::real) \<le> 1 / 2" by simp
  have c: "distanceTo (52, 0, 0) (ex_store 1) \<noteq> 0"
    using ex_dist by simp
  have s: "strength ex_force = 1"
    by (simp add: ex_force_def)
  show ?thesis
    using delta_magnitude [OF a b ex_target c] a ex_target ex_dist s
    by (simp add: Let_def)
qed

text \<open>
  Claim C3 (orbit radius). The radius is the size of the parent plus the size of the node
  plus 10 plus an adjustment, which is 30 divided by the larger of the link value and 1
  when the link value is positive and 30 otherwise. For fixed sizes a larger link value
  gives a strictly smaller radius once it exceeds 1, and the same radius up to 1. With
  sizes 10 and 2 the radius is 52 at value 1 and 28 at value 5.
\<close>

theorem orbit_radius:
  "calculateOrbitRadius p n v = node_size p + node_size n + 10 + (if 0 < v then 30 / max v 1 else 30)
   \<and> (v < w \<longrightarrow> (if 1 < w then calculateOrbitRadius p n w < calculateOrbitRadius p n v
                  else calculateOrbitRadius p n w = calculateOrbitRadius p n v))
   \<and> (node_size p = 10 \<and> node_size n = 2 \<longrightarrow>
        calculateOrbitRadius p n 1 = 52 \<and> calculateOrbitRadius p n 5 = 28)"
proof -
  have a: "calculateOrbitRadius p n u = node_size p + node_size n + 10 + 30 / max u 1" for u
    by (simp add: calculateOrbitRadius_def max_def)
  have b: "30 / max w 1 < 30 / max v 1" if "v < w" "1 < w"
  proof -
    have "max v 1 < max w 1" using that by (simp add: max_def)
    moreover have "0 < max v 1" by (simp add: max_def)
    ultimately show ?thesis by (simp add: frac_less2)
  qed
  have c: "max w 1 = max v 1" if "v < w" "\<not> 1 < w"
    using that by (simp add: max_def)
  show ?thesis
    using b c by (auto simp add: a)
qed

theorem orbit_radius_witness:
  "(1::real) < 5 \<and> node_size ex_root = 10 \<and> node_size ex_leaf = 2
   \<and> calculateOrbitRadius ex_root ex_leaf 5 < calculateOrbitRadius ex_root ex_leaf 1
   \<and> calculateOrbitRadius ex_root ex_leaf 1 = 52
   \<and> calculateOrbitRadius ex_root ex_leaf 5 = 28"
  using orbit_radius [of ex_root ex_leaf 1 5]
  by (simp add: ex_root_def ex_leaf_def)

text \<open>
  Claim C4 (zero strength). While the strength of the force is 0, an invocation with any
  alpha, node array and links leaves \<open>vx\<close>, \<open>vy\<close> and \<open>vz\<close> of every node object as they
  were.
\<close>

theorem zero_strength_noop:
  "strength F = 0 \<Longrightarrow>
     node_vx (force F alpha clock h r) = node_vx (h r)
   \<and> node_vy (force F alpha clock h r) = node_vy (h r)
   \<and> node_vz (force F alpha clock h r) = node_vz (h r)"
  by (simp add: force_def)

theorem zero_strength_noop_witness:
  "strength (set_strength 0 ex_force) = 0
   \<and> node_vx (force (set_strength 0 ex_force) (1 / 2) (\<lambda>_. 0) ex_store 1) = 0
   \<and> node_vy (force (set_strength 0 ex_force) (1 / 2) (\<lambda>_. 0) ex_store 1) = 0
   \<and> node_vz (force (set_strength 0 ex_force) (1 / 2) (\<lambda>_. 0) ex_store 1) = 0"
proof -
  have s: "strength (set_strength 0 ex_force) = 0"
    by (simp add: set_strength_def)
  show ?thesis
    using s zero_strength_noop [of "set_strength 0 ex_force" "1 / 2" "\<lambda>_. 0" ex_store 1]
    by (simp add: ex_store_def ex_leaf_def)
qed

section \<open>Properties of the setup\<close>

text \<open>
  Claim C9 (setup errors). \<open>setupOrbitalPhysics\<close> ends in an error exactly when the force
  graph reference is absent or its simulation is not available, and the error is one of
  the two \<open>Error\<close> values of the function. Otherwise the simulation holds the orbital force
  in the slot \<open>orbital\<close>, and the force returned is that force, with the strength asked
  for.
\<close>

theorem setup_errors:
  "((\<exists>e. setupOrbitalPhysics fg s = Inl e)
      \<longleftrightarrow> (fg = None \<or> (\<exists>g. fg = Some g \<and> d3Force g = None)))
   \<and> (\<forall>e. setupOrbitalPhysics fg s = Inl e \<longrightarrow>
         e = Error ''Force graph reference is required''
         \<or> e = Error ''Simulation not available from force graph'')
   \<and> (\<forall>orb g'. setupOrbitalPhysics fg s = Inr (orb, g') \<longrightarrow>
         (\<exists>sim. d3Force g' = Some sim \<and> sim_force sim ''orbital'' = Some orb)
         \<and> get_strength orb = s)"
  by (auto simp add: setupOrbitalPhysics_def Let_def set_strength_def get_strength_def
      split: option.splits)

theorem setup_errors_witness:
  "setupOrbitalPhysics None 1 = Inl (Error ''Force graph reference is required'')
   \<and> setupOrbitalPhysics (Some (ex_graph\<lparr>d3Force := None\<rparr>)) 1
       = Inl (Error ''Simulation not available from force graph'')
   \<and> (\<exists>orb g' sim. setupOrbitalPhysics (Some ex_graph) 1 = Inr (orb, g')
        \<and> d3Force g' = Some sim \<and> sim_force sim ''orbital'' = Some orb \<and> get_strength orb = 1)"
proof -
  have a: "setupOrbitalPhysics None 1 = Inl (Error ''Force graph reference is required'')"
    by (simp add: setupOrbitalPhysics_def)
  have b: "setupOrbitalPhysics (Some (ex_graph\<lparr>d3Force := None\<rparr>)) 1
       = Inl (Error ''Simulation not available from force graph'')"
    by (simp add: setupOrbitalPhysics_def)
  obtain orb g' where c: "setupOrbitalPhysics (Some ex_graph) 1 = Inr (orb, g')"
    by (simp add: setupOrbitalPhysics_def ex_graph_def Let_def)
  show ?thesis
    using a b c setup_errors [of "Some ex_graph" 1] by auto
qed

section \<open>Properties of the performance monitor\<close>

text \<open>
  Claim C8 (quality thresholds). The recommended level is low for an FPS value below 15,
  medium from 15 up to but not including 30, and high from 30 on; so 10 gives low, 25
  medium, 60 high, and the boundaries 15 and 30 give medium and high.
\<close>

theorem fps_thresholds:
  "(getFPS m < 15 \<longrightarrow> getRecommendedQualityLevel m = Low)
   \<and> (15 \<le> getFPS m \<and> getFPS m < 30 \<longrightarrow> getRecommendedQualityLevel m = Medium)
   \<and> (30 \<le> getFPS m \<longrightarrow> getRecommendedQualityLevel m = High)"
  by (simp add: getRecommendedQualityLevel_def Let_def)

theorem fps_thresholds_witness:
  "getFPS (new_PerformanceMonitor\<lparr>fps := 10\<rparr>) < 15
   \<and> getRecommendedQualityLevel (new_PerformanceMonitor\<lparr>fps := 10\<rparr>) = Low
   \<and> getRecommendedQualityLevel (new_PerformanceMonitor\<lparr>fps := 25\<rparr>) = Medium
   \<and> getRecommendedQualityLevel (new_PerformanceMonitor\<lparr>fps := 60\<rparr>) = High
   \<and> getRecommendedQualityLevel (new_PerformanceMonitor\<lparr>fps := 15\<rparr>) = Medium
   \<and> getRecommendedQualityLevel (new_PerformanceMonitor\<lparr>fps := 30\<rparr>) = High"
  using fps_thresholds [of "new_PerformanceMonitor\<lparr>fps := 10\<rparr>"]
    fps_thresholds [of "new_PerformanceMonitor\<lparr>fps := 25\<rparr>"]
    fps_thresholds [of "new_PerformanceMonitor\<lparr>fps := 60\<rparr>"]
    fps_thresholds [of "new_PerformanceMonitor\<lparr>fps := 15\<rparr>"]
    fps_thresholds [of "new_PerformanceMonitor\<lparr>fps := 30\<rparr>"]
  by (simp add: getFPS_def)

section \<open>Properties of the resource modules\<close>

text \<open>
  Claim C10 (idempotent initialisation). After a call of \<open>initNodeResources\<close> the module
  holds the manager the call returned, and a further call, with any detail and whether or
  not a document exists, returns that manager and leaves the module as it is; disposing
  empties the module. The same holds for \<open>initLinkResources\<close> and
  \<open>disposeLinkResources\<close>.
\<close>

theorem init_idempotent:
  "(initNodeResources doc d st = (rm, st1) \<longrightarrow>
      resourceManager st1 = Some rm \<and> initNodeResources doc' d' st1 = (rm, st1)
      \<and> resourceManager (disposeNodeResources st1) = None)
   \<and> (initLinkResources doc d lst = (lrm, lst1) \<longrightarrow>
      linkResourceManager lst1 = Some lrm \<and> initLinkResources doc' d' lst1 = (lrm, lst1)
      \<and> linkResourceManager (disposeLinkResources lst1) = None)"
  by (auto simp add: initNodeResources_def initLinkResources_def disposeNodeResources_def
      disposeLinkResources_def Let_def split: option.splits)

theorem init_idempotent_witness:
  "(\<exists>rm st1. initNodeResources False High \<lparr>resourceManager = None\<rparr> = (rm, st1)
      \<and> initNodeResources True Low st1 = (rm, st1)
      \<and> geometries rm ''rootNode'' = Some (SphereGeometry 1 32 32)
      \<and> resourceManager (disposeNodeResources st1) = None
      \<and> geometries (fst (initNodeResources True Low (disposeNodeResources st1))) ''rootNode''
          = Some (SphereGeometry 1 16 16))
   \<and> (\<exists>lrm lst1. initLinkResources False High \<lparr>linkResourceManager = None\<rparr> = (lrm, lst1)
      \<and> initLinkResources True Low lst1 = (lrm, lst1)
      \<and> getParameter ''maxParticles'' lrm = Some 50
      \<and> linkResourceManager (disposeLinkResources lst1) = None
      \<and> getParameter ''maxParticles'' (fst (initLinkResources True Low (disposeLinkResources lst1)))
          = Some 10)"
proof -
  obtain rm st1 where n: "initNodeResources False High \<lparr>resourceManager = None\<rparr> = (rm, st1)"
    by (cases "initNodeResources False High \<lparr>resourceManager = None\<rparr>")
  obtain lrm lst1 where l: "initLinkResources False High \<lparr>linkResourceManager = None\<rparr> = (lrm, lst1)"
    by (cases "initLinkResources False High \<lparr>linkResourceManager = None\<rparr>")
  have g: "geometries rm ''rootNode'' = Some (SphereGeometry 1 32 32)"
    using n by (auto simp add: initNodeResources_def Let_def new_ResourceManager_def
        addGeometry_def addTexture_def getResolution_def)
  have p: "getParameter ''maxParticles'' lrm = Some 50"
    using l by (auto simp add: initLinkResources_def Let_def new_ResourceManager_def
        addMaterial_def addTexture_def setParameter_def getParameter_def)
  have g2: "geometries (fst (initNodeResources True Low st)) ''rootNode''
          = Some (SphereGeometry 1 16 16)" if "resourceManager st = None" for st
    using that by (simp add: initNodeResources_def Let_def new_ResourceManager_def
        addGeometry_def addTexture_def getResolution_def)
  have p2: "getParameter ''maxParticles'' (fst (initLinkResources True Low st)) = Some 10"
    if "linkResourceManager st = None" for st
    using that by (simp add: initLinkResources_def Let_def new_ResourceManager_def
        addMaterial_def addTexture_def setParameter_def getParameter_def)
  show ?thesis
    using init_idempotent [of False High "\<lparr>resourceManager = None\<rparr>" rm st1 True Low
        "\<lparr>linkResourceManager = None\<rparr>" lrm lst1] n l g p g2 p2
    by simp
qed

section \<open>Properties of single precision\<close>

text \<open>Rounding is monotone on the non-negative numbers and keeps 0, one half, 1, one and
  a half and 2; a number slightly below 1 is rounded to 1.\<close>

lemma rne_of_int: "rne (of_int k) = k"
  by (simp add: rne_def)

lemma rne_between: "\<lfloor>x\<rfloor> \<le> rne x \<and> rne x \<le> \<lfloor>x\<rfloor> + 1"
  by (simp add: rne_def Let_def)

lemma rne_mono: "x \<le> y \<Longrightarrow> rne x \<le> rne y"
proof -
  assume xy: "x \<le> y"
  have fl: "\<lfloor>x\<rfloor> \<le> \<lfloor>y\<rfloor>" using xy by (rule floor_mono)
  show ?thesis
  proof (cases "\<lfloor>x\<rfloor> = \<lfloor>y\<rfloor>")
    case True
    then have "x - of_int \<lfloor>x\<rfloor> \<le> y - of_int \<lfloor>y\<rfloor>" using xy by simp
    then show ?thesis using True by (auto simp add: rne_def Let_def)
  next
    case False
    then have "\<lfloor>x\<rfloor> + 1 \<le> \<lfloor>y\<rfloor>" using fl by simp
    then show ?thesis using rne_between [of x] rne_between [of y] by linarith
  qed
qed

lemma rne_le: "x \<le> of_int k \<Longrightarrow> rne x \<le> k"
  using rne_mono [of x "of_int k"] by (simp add: rne_of_int)

lemma rne_ge: "of_int k \<le> x \<Longrightarrow> k \<le> rne x"
  using rne_mono [of "of_int k" x] by (simp add: rne_of_int)

lemma float32_exact:
  assumes "x \<noteq> 0" and "\<lfloor>log 2 \<bar>x\<bar>\<rfloor> = e" and "- 126 \<le> e"
    and "x = of_int k * 2 powr (of_int e - 23)"
  shows "float32 x = x"
proof -
  let ?u = "(2::real) powr (of_int e - 23)"
  have u: "?u > 0" by simp
  have "x / ?u = of_int k"
    using assms(4) u by simp
  then have "rne (x / ?u) = k" by (simp add: rne_of_int)
  moreover have "expo x = e"
    using assms(2,3) by (simp add: expo_def)
  ultimately show ?thesis
    using assms(1,4) by (simp add: float32_def Let_def)
qed

lemma float32_0: "float32 0 = 0"
  by (simp add: float32_def)

lemma float32_1: "float32 1 = 1"
  by (rule float32_exact [of 1 0 "2 ^ 23"]) (simp_all add: powr_minus_divide)

lemma float32_2: "float32 2 = 2"
  by (rule float32_exact [of 2 1 "2 ^ 23"]) (simp_all add: powr_minus_divide)

lemma floor_log2I:
  "0 < x \<Longrightarrow> 2 powr of_int e \<le> x \<Longrightarrow> x < 2 powr (of_int e + 1) \<Longrightarrow> \<lfloor>log 2 x\<rfloor> = e"
  by (simp add: floor_log_eq_powr_iff)

lemma floor_log_half: "\<lfloor>log 2 (1 / 2 :: real)\<rfloor> = - 1"
  by (rule floor_log2I) (simp_all add: powr_minus_divide)

lemma float32_half: "float32 (1 / 2) = 1 / 2"
  by (rule float32_exact [of "1 / 2" "- 1" "2 ^ 23"])
    (simp_all add: floor_log_half powr_minus_divide)

lemma floor_log_three_halves: "\<lfloor>log 2 (3 / 2 :: real)\<rfloor> = 0"
  by (rule floor_log2I) simp_all

lemma float32_three_halves: "float32 (3 / 2) = 3 / 2"
  by (rule float32_exact [of "3 / 2" 0 "3 * 2 ^ 22"])
    (simp_all add: floor_log_three_halves powr_minus_divide)


lemma float32_expo:
  "x \<noteq> 0 \<Longrightarrow> float32 x = of_int (rne (x / 2 powr (of_int (expo x) - 23))) * 2 powr (of_int (expo x) - 23)"
  by (simp add: float32_def Let_def)

lemma expo_upper: "x \<noteq> 0 \<Longrightarrow> \<bar>x\<bar> < 2 powr (of_int (expo x) + 1)"
proof -
  assume "x \<noteq> 0"
  then have p: "0 < \<bar>x\<bar>" by simp
  have "\<bar>x\<bar> < 2 powr (of_int \<lfloor>log 2 \<bar>x\<bar>\<rfloor> + 1)"
    using floor_log_eq_powr_iff [of "\<bar>x\<bar>" 2 "\<lfloor>log 2 \<bar>x\<bar>\<rfloor>"] p by simp
  also have "\<dots> \<le> 2 powr (of_int (expo x) + 1)"
    by (simp add: expo_def)
  finally show ?thesis .
qed

lemma expo_lower: "x \<noteq> 0 \<Longrightarrow> - 126 < expo x \<Longrightarrow> 2 powr of_int (expo x) \<le> \<bar>x\<bar>"
proof -
  assume "x \<noteq> 0" and e: "- 126 < expo x"
  then have p: "0 < \<bar>x\<bar>" by simp
  have "expo x = \<lfloor>log 2 \<bar>x\<bar>\<rfloor>"
    using e by (simp add: expo_def max_def split: if_splits)
  then show ?thesis
    using floor_log_eq_powr_iff [of "\<bar>x\<bar>" 2 "\<lfloor>log 2 \<bar>x\<bar>\<rfloor>"] p by simp
qed

lemma expo_mono: "x \<noteq> 0 \<Longrightarrow> \<bar>x\<bar> \<le> \<bar>y\<bar> \<Longrightarrow> expo x \<le> expo y"
proof -
  assume "x \<noteq> 0" and le: "\<bar>x\<bar> \<le> \<bar>y\<bar>"
  then have "0 < \<bar>x\<bar>" "0 < \<bar>y\<bar>" by simp_all
  then have "log 2 \<bar>x\<bar> \<le> log 2 \<bar>y\<bar>" using le by simp
  then have "\<lfloor>log 2 \<bar>x\<bar>\<rfloor> \<le> \<lfloor>log 2 \<bar>y\<bar>\<rfloor>" by (rule floor_mono)
  then show ?thesis by (simp add: expo_def)
qed

lemma powr_split: "(2::real) powr (of_int e + 1) = 2 ^ 24 * 2 powr (of_int e - 23)"
proof -
  have "(2::real) powr (of_int e + 1) = 2 powr (24 + (of_int e - 23))" by (simp add: algebra_simps)
  also have "\<dots> = 2 powr 24 * 2 powr (of_int e - 23)" by (rule powr_add)
  finally show ?thesis by simp
qed

lemma powr_split0: "(2::real) powr (of_int e) = 2 ^ 23 * 2 powr (of_int e - 23)"
proof -
  have "(2::real) powr (of_int e) = 2 powr (23 + (of_int e - 23))" by simp
  also have "\<dots> = 2 powr 23 * 2 powr (of_int e - 23)" by (rule powr_add)
  finally show ?thesis by simp
qed

lemma float32_pos_upper:
  assumes "0 < x"
  shows "float32 x \<le> 2 powr (of_int (expo x) + 1)"
proof -
  let ?u = "(2::real) powr (of_int (expo x) - 23)"
  have u: "0 < ?u" by simp
  have "x < 2 ^ 24 * ?u"
    using expo_upper [of x] assms by (simp add: powr_split)
  then have "x / ?u \<le> of_int (2 ^ 24)"
    using u by (simp add: pos_divide_le_eq)
  then have "rne (x / ?u) \<le> 2 ^ 24" by (rule rne_le)
  then have "real_of_int (rne (x / ?u)) \<le> 2 ^ 24"
    by (metis of_int_le_iff of_int_numeral of_int_power)
  then have a: "real_of_int (rne (x / ?u)) * ?u \<le> 2 ^ 24 * ?u"
    using u by (intro mult_right_mono) simp_all
  have "float32 x = real_of_int (rne (x / ?u)) * ?u"
    using assms float32_expo [of x] by simp
  also have "\<dots> \<le> 2 ^ 24 * ?u"
    by (rule a)
  also have "\<dots> = 2 powr (of_int (expo x) + 1)"
    by (rule powr_split [symmetric])
  finally show ?thesis .
qed

lemma float32_pos_lower:
  assumes "0 < x" "- 126 < expo x"
  shows "2 powr of_int (expo x) \<le> float32 x"
proof -
  let ?u = "(2::real) powr (of_int (expo x) - 23)"
  have u: "0 < ?u" by simp
  have "2 ^ 23 * ?u = 2 powr of_int (expo x)"
    by (rule powr_split0 [symmetric])
  moreover have "2 powr of_int (expo x) \<le> x"
    using expo_lower [of x] assms by simp
  ultimately have "2 ^ 23 * ?u \<le> x"
    by simp
  then have "of_int (2 ^ 23) \<le> x / ?u"
    using u by (simp add: pos_le_divide_eq)
  then have "2 ^ 23 \<le> rne (x / ?u)" by (rule rne_ge)
  then have "2 ^ 23 \<le> real_of_int (rne (x / ?u))"
    by (metis of_int_le_iff of_int_numeral of_int_power)
  then have a: "2 ^ 23 * ?u \<le> real_of_int (rne (x / ?u)) * ?u"
    using u by (intro mult_right_mono) simp_all
  have "2 powr of_int (expo x) = 2 ^ 23 * ?u"
    by (rule powr_split0)
  then have "2 powr of_int (expo x) \<le> real_of_int (rne (x / ?u)) * ?u"
    using a by linarith
  also have "\<dots> = float32 x"
    using assms(1) float32_expo [of x] by simp
  finally show ?thesis .
qed

lemma float32_nonneg: "0 \<le> x \<Longrightarrow> 0 \<le> float32 x"
proof (cases "x = 0")
  case True
  then show ?thesis by (simp add: float32_0)
next
  case False
  assume "0 \<le> x"
  then have "of_int 0 \<le> x / 2 powr (of_int (expo x) - 23)" by simp
  then have "0 \<le> rne (x / 2 powr (of_int (expo x) - 23))" by (rule rne_ge)
  then show ?thesis using False by (simp add: float32_expo)
qed

lemma float32_mono_pos:
  assumes "0 < x" "x \<le> y"
  shows "float32 x \<le> float32 y"
proof -
  have y: "0 < y" using assms by simp
  have e: "expo x \<le> expo y"
    using assms by (intro expo_mono) simp_all
  show ?thesis
  proof (cases "expo x = expo y")
    case True
    let ?u = "(2::real) powr (of_int (expo y) - 23)"
    have "x / ?u \<le> y / ?u" using assms(2) by (simp add: divide_right_mono)
    then have "rne (x / ?u) \<le> rne (y / ?u)" by (rule rne_mono)
    then have "real_of_int (rne (x / ?u)) * ?u \<le> real_of_int (rne (y / ?u)) * ?u"
      by (simp add: mult_right_mono)
    then show ?thesis
      using assms y True by (simp add: float32_expo)
  next
    case False
    then have lt: "expo x + 1 \<le> expo y" using e by simp
    have "- 126 \<le> expo x" by (simp add: expo_def)
    then have b: "- 126 < expo y" using lt by simp
    have "float32 x \<le> 2 powr (of_int (expo x) + 1)"
      using assms(1) by (rule float32_pos_upper)
    also have "\<dots> \<le> 2 powr of_int (expo y)"
    proof -
      have "real_of_int (expo x) + 1 \<le> real_of_int (expo y)"
        using lt by (metis of_int_1 of_int_add of_int_le_iff)
      then show ?thesis by simp
    qed
    also have "\<dots> \<le> float32 y"
      using y b by (rule float32_pos_lower)
    finally show ?thesis .
  qed
qed

lemma float32_mono_nonneg: "0 \<le> x \<Longrightarrow> x \<le> y \<Longrightarrow> float32 x \<le> float32 y"
proof (cases "x = 0")
  case True
  assume "x \<le> y"
  then show ?thesis using True by (simp add: float32_0 float32_nonneg)
next
  case False
  assume "0 \<le> x" "x \<le> y"
  then show ?thesis using False by (intro float32_mono_pos) simp_all
qed

lemma float32_near_one: "float32 (1 - 1 / 2 ^ 30) = 1"
proof -
  let ?x = "1 - 1 / 2 ^ 30 :: real"
  have fl: "\<lfloor>log 2 ?x\<rfloor> = - 1"
    by (rule floor_log2I) (simp_all add: powr_minus_divide)
  have ex: "expo ?x = - 1"
    using fl by (simp add: expo_def)
  have q: "?x / 2 powr (of_int (- 1) - 23) = 2 ^ 24 - 1 / 2 ^ 6"
    by (simp add: powr_minus_divide field_simps)
  have f: "\<lfloor>2 ^ 24 - 1 / 2 ^ 6 :: real\<rfloor> = 2 ^ 24 - 1"
    by (rule floor_unique) simp_all
  have "rne (2 ^ 24 - 1 / 2 ^ 6) = 2 ^ 24"
    unfolding rne_def Let_def f by simp
  then have "float32 ?x = of_int (2 ^ 24) * 2 powr (of_int (- 1) - 23)"
    unfolding float32_def Let_def ex q by simp
  then show ?thesis by (simp add: powr_minus_divide)
qed


lemma float32_unit: "0 \<le> x \<Longrightarrow> x \<le> 1 \<Longrightarrow> 0 \<le> float32 x \<and> float32 x \<le> 1"
  using float32_nonneg [of x] float32_mono_nonneg [of x 1] by (simp add: float32_1)

section \<open>Properties of the particle flow\<close>

text \<open>The loop of creation writes the rounded draws, one for each particle, and keeps the
  lengths of both buffers.\<close>

lemma placeParticle_snd:
  "snd (placeParticle s d random i (pos, offs)) = offs[i := float32 (random i)]"
  by (cases s; cases d) (simp add: placeParticle_def Let_def)

lemma fold_placeParticle_take:
  "k \<le> length offs \<Longrightarrow>
   snd (fold (placeParticle s d random) [0..<k] (pos, offs))
   = map (\<lambda>i. float32 (random i)) [0..<k] @ drop k offs"
proof (induction k)
  case 0
  then show ?case by simp
next
  case (Suc k)
  let ?f = "\<lambda>i. float32 (random i)"
  obtain p1 o1 where f: "fold (placeParticle s d random) [0..<k] (pos, offs) = (p1, o1)"
    by (cases "fold (placeParticle s d random) [0..<k] (pos, offs)")
  have k: "k < length offs" using Suc.prems by simp
  have o1: "o1 = map ?f [0..<k] @ drop k offs"
    using Suc.IH f k by simp
  have "snd (fold (placeParticle s d random) [0..<Suc k] (pos, offs))
        = snd (placeParticle s d random k (p1, o1))"
    by (simp add: f)
  also have "\<dots> = o1[k := ?f k]"
    by (rule placeParticle_snd)
  also have "\<dots> = map ?f [0..<k] @ (drop k offs)[0 := ?f k]"
    by (simp add: o1 list_update_append)
  also have "(drop k offs)[0 := ?f k] = ?f k # drop (Suc k) offs"
    using k by (simp add: Cons_nth_drop_Suc [symmetric])
  also have "map ?f [0..<k] @ ?f k # drop (Suc k) offs = map ?f [0..<Suc k] @ drop (Suc k) offs"
    by simp
  finally show ?case .
qed

lemma fold_placeParticle_length:
  "fold (placeParticle s d random) is (pos, offs) = (pos', offs') \<Longrightarrow>
   length offs' = length offs \<and> length pos' = length pos"
proof (induction "is" arbitrary: pos offs)
  case Nil
  then show ?case by simp
next
  case (Cons i "is")
  obtain p1 o1 where st: "placeParticle s d random i (pos, offs) = (p1, o1)"
    by (cases "placeParticle s d random i (pos, offs)")
  have a: "length o1 = length offs \<and> length p1 = length pos"
    using st by (cases s; cases d) (auto simp add: placeParticle_def Let_def)
  have "fold (placeParticle s d random) is (p1, o1) = (pos', offs')"
    using Cons.prems st by simp
  then have "length offs' = length o1 \<and> length pos' = length p1"
    by (rule Cons.IH)
  then show ?case using a by simp
qed

lemma createParticleSystem_built:
  assumes "createParticleSystem st random s t col speed count sz = Inr ps"
  shows "\<exists>md. metadata ps = Some md \<and> md_speed md = speed \<and> md_count md = count
     \<and> 0 \<le> count \<and> md_offsets md = map (\<lambda>i. float32 (random i)) [0..<nat count]
     \<and> length (positions ps) = nat (count * 3)"
proof -
  obtain sx sy sz' tx ty tz where st: "s = (sx, sy, sz')" "t = (tx, ty, tz)"
    by (cases s; cases t) auto
  let ?dir = "(tx - sx, ty - sy, tz - sz')"
  obtain pos offs where f: "fold (placeParticle s ?dir random) [0..<nat count]
      (replicate (nat (count * 3)) 0, replicate (nat count) 0) = (pos, offs)"
    by (cases "fold (placeParticle s ?dir random) [0..<nat count]
      (replicate (nat (count * 3)) 0, replicate (nat count) 0)")
  have "snd (fold (placeParticle s ?dir random) [0..<nat count]
      (replicate (nat (count * 3)) 0, replicate (nat count) 0))
      = map (\<lambda>i. float32 (random i)) [0..<nat count] @ drop (nat count) (replicate (nat count) 0)"
    by (rule fold_placeParticle_take) simp
  then have o: "offs = map (\<lambda>i. float32 (random i)) [0..<nat count]"
    using f by simp
  have "length offs = length (replicate (nat count) (0::real))
        \<and> length pos = length (replicate (nat (count * 3)) (0::real))"
    using f by (rule fold_placeParticle_length)
  then have l: "length pos = nat (count * 3)" by simp
  show ?thesis
    using assms f o l
    by (auto simp add: createParticleSystem_def st Let_def split: option.splits sum.splits if_splits)
qed

lemma createParticleSystem_ok:
  assumes "linkResourceManager st = Some rm" "textures rm ''particle'' = Some tex" "0 \<le> count"
  shows "\<exists>ps. createParticleSystem st random s t col speed count sz = Inr ps"
proof -
  obtain sx sy sz' tx ty tz where st: "s = (sx, sy, sz')" "t = (tx, ty, tz)"
    by (cases s; cases t) auto
  let ?dir = "(tx - sx, ty - sy, tz - sz')"
  obtain pos offs where f: "fold (placeParticle s ?dir random) [0..<nat count]
      (replicate (nat (count * 3)) 0, replicate (nat count) 0) = (pos, offs)"
    by (cases "fold (placeParticle s ?dir random) [0..<nat count]
      (replicate (nat (count * 3)) 0, replicate (nat count) 0)")
  show ?thesis
    using assms f by (simp add: createParticleSystem_def st Let_def getTexture_def)
qed

text \<open>An update keeps offsets inside the closed unit interval, and keeps their number.\<close>

lemma moveParticle_offsets:
  assumes "0 < speed" "speed < 1" "\<forall>v\<in>set offs. 0 \<le> v \<and> v \<le> 1"
    "moveParticle s d len speed i (pos, offs) = (pos', offs')"
  shows "(\<forall>v\<in>set offs'. 0 \<le> v \<and> v \<le> 1) \<and> length offs' = length offs"
proof (cases "i < length offs")
  case True
  let ?o1 = "float32 (offs ! i + speed)"
  let ?o2 = "if ?o1 > 1 then float32 (?o1 - 1) else ?o1"
  have r: "0 \<le> offs ! i \<and> offs ! i \<le> 1"
    using assms(3) True by simp
  have lo: "0 \<le> ?o1"
    using r assms(1) by (intro float32_nonneg) simp
  have "?o1 \<le> float32 2"
    using r assms(1,2) by (intro float32_mono_nonneg) simp_all
  then have hi: "?o1 \<le> 2" by (simp add: float32_2)
  have w: "0 \<le> float32 (?o1 - 1) \<and> float32 (?o1 - 1) \<le> 1" if "?o1 > 1"
    using that hi by (intro float32_unit) simp_all
  have v: "0 \<le> ?o2 \<and> ?o2 \<le> 1"
  proof (cases "?o1 > 1")
    case True
    then show ?thesis using w by simp
  next
    case False
    then show ?thesis using lo by simp
  qed
  have "offs' = offs[i := ?o2]"
    using assms(4) True by (cases s; cases d) (simp add: moveParticle_def Let_def)
  then show ?thesis
    using v assms(3) set_update_subset_insert [of offs i ?o2] by auto
next
  case False
  then have "offs' = offs"
    using assms(4) by (cases s; cases d) (simp add: moveParticle_def)
  then show ?thesis using assms(3) by simp
qed

lemma fold_moveParticle_offsets:
  assumes "0 < speed" "speed < 1"
  shows "\<forall>v\<in>set offs. 0 \<le> v \<and> v \<le> 1 \<Longrightarrow>
    fold (moveParticle s d len speed) is (pos, offs) = (pos', offs') \<Longrightarrow>
    (\<forall>v\<in>set offs'. 0 \<le> v \<and> v \<le> 1) \<and> length offs' = length offs"
proof (induction "is" arbitrary: pos offs)
  case Nil
  then show ?case by simp
next
  case (Cons i "is")
  obtain p1 o1 where st: "moveParticle s d len speed i (pos, offs) = (p1, o1)"
    by (cases "moveParticle s d len speed i (pos, offs)")
  have a: "(\<forall>v\<in>set o1. 0 \<le> v \<and> v \<le> 1) \<and> length o1 = length offs"
    using assms Cons.prems(1) st by (rule moveParticle_offsets)
  have "fold (moveParticle s d len speed) is (p1, o1) = (pos', offs')"
    using Cons.prems(2) st by simp
  then have "(\<forall>v\<in>set offs'. 0 \<le> v \<and> v \<le> 1) \<and> length offs' = length o1"
    using a by (intro Cons.IH) simp_all
  then show ?case using a by simp
qed

lemma updateParticles_inv:
  assumes "metadata ps = Some md" "0 < md_speed md" "md_speed md < 1"
    "\<forall>v\<in>set (md_offsets md). 0 \<le> v \<and> v \<le> 1"
  shows "\<exists>md'. metadata (updateParticles ps s t) = Some md' \<and> md_speed md' = md_speed md
    \<and> md_count md' = md_count md \<and> length (md_offsets md') = length (md_offsets md)
    \<and> (\<forall>v\<in>set (md_offsets md'). 0 \<le> v \<and> v \<le> 1)"
proof -
  obtain sx sy sz tx ty tz where st: "s = (sx, sy, sz)" "t = (tx, ty, tz)"
    by (cases s; cases t) auto
  let ?len = "sqrt ((tx - sx) * (tx - sx) + (ty - sy) * (ty - sy) + (tz - sz) * (tz - sz))"
  show ?thesis
  proof (cases "?len = 0")
    case True
    then show ?thesis
      using assms by (simp add: updateParticles_def st Let_def)
  next
    case False
    let ?dir = "((tx - sx) / ?len, (ty - sy) / ?len, (tz - sz) / ?len)"
    obtain pos offs where f: "fold (moveParticle s ?dir ?len (md_speed md))
        [0..<nat (md_count md)] (positions ps, md_offsets md) = (pos, offs)"
      by (cases "fold (moveParticle s ?dir ?len (md_speed md))
        [0..<nat (md_count md)] (positions ps, md_offsets md)")
    have inv: "(\<forall>v\<in>set offs. 0 \<le> v \<and> v \<le> 1) \<and> length offs = length (md_offsets md)"
      using assms(2,3,4) f by (rule fold_moveParticle_offsets)
    have "updateParticles ps s t = ps\<lparr>positions := pos,
        metadata := Some (md\<lparr>md_dir := ?dir, md_length := ?len, md_offsets := offs\<rparr>)\<rparr>"
      using assms(1) False f by (simp add: updateParticles_def st Let_def)
    then show ?thesis using inv by simp
  qed
qed

lemma updates_inv:
  assumes "0 < speed" "speed < 1"
  shows "metadata ps = Some md \<Longrightarrow> md_speed md = speed \<Longrightarrow>
    \<forall>v\<in>set (md_offsets md). 0 \<le> v \<and> v \<le> 1 \<Longrightarrow>
    \<exists>md'. metadata (fold (\<lambda>(s, t) p. updateParticles p s t) moves ps) = Some md'
      \<and> md_speed md' = speed \<and> md_count md' = md_count md
      \<and> length (md_offsets md') = length (md_offsets md)
      \<and> (\<forall>v\<in>set (md_offsets md'). 0 \<le> v \<and> v \<le> 1)"
proof (induction moves arbitrary: ps md)
  case Nil
  then show ?case by simp
next
  case (Cons f moves)
  obtain s t where f: "f = (s, t)" by (cases f)
  have "0 < md_speed md" "md_speed md < 1"
    using assms Cons.prems(2) by simp_all
  with Cons.prems(1) obtain md1 where m1: "metadata (updateParticles ps s t) = Some md1"
    "md_speed md1 = md_speed md" "md_count md1 = md_count md"
    "length (md_offsets md1) = length (md_offsets md)"
    "\<forall>v\<in>set (md_offsets md1). 0 \<le> v \<and> v \<le> 1"
    using updateParticles_inv [of ps md s t] Cons.prems(3) by blast
  have "\<exists>md'. metadata (fold (\<lambda>(s, t) p. updateParticles p s t) moves (updateParticles ps s t)) = Some md'
      \<and> md_speed md' = speed \<and> md_count md' = md_count md1
      \<and> length (md_offsets md') = length (md_offsets md1)
      \<and> (\<forall>v\<in>set (md_offsets md'). 0 \<le> v \<and> v \<le> 1)"
    using m1(1) _ m1(5) by (rule Cons.IH) (simp add: m1(2) Cons.prems(2))
  then show ?case
    using m1(3,4) by (simp add: f)
qed

lemma init_link_manager:
  "\<exists>rm. initLinkResources doc d \<lparr>linkResourceManager = None\<rparr>
          = (rm, \<lparr>linkResourceManager = Some rm\<rparr>)
     \<and> textures rm ''particle'' = Some (createParticleTexture doc)
     \<and> materials rm ''linkBase'' = Some \<lparr>mat_transparent = True, mat_opacity = 0.6, mat_color = None\<rparr>
     \<and> parameters rm ''maxParticles'' = Some (case d of High \<Rightarrow> 50 | Medium \<Rightarrow> 25 | Low \<Rightarrow> 10)"
  by (simp add: initLinkResources_def Let_def new_ResourceManager_def addTexture_def
      addMaterial_def setParameter_def)

text \<open>The two example particle systems are what the code builds, and one update moves the
  offset one half onto 1, where it stays until the next update.\<close>

lemma ex_particles_created:
  "createParticleSystem ex_links (\<lambda>_. 1 / 2) (0, 0, 0) (1, 0, 0) (ColorNumber 0xaaaaaa) (1 / 2) 1 1
     = Inr ex_particles"
proof -
  have "replicate 3 (0::real) = [0, 0, 0]"
    by (simp add: numeral_3_eq_3)
  then show ?thesis
    by (simp add: createParticleSystem_def ex_links_def initLinkResources_def Let_def
        new_ResourceManager_def addTexture_def addMaterial_def setParameter_def getTexture_def
        createParticleTexture_def placeParticle_def ex_particles_def float32_0 float32_half)
qed

lemma ex_particles_edge_created:
  "createParticleSystem ex_links (\<lambda>_. 1 - 1 / 2 ^ 30) (0, 0, 0) (1, 0, 0) (ColorNumber 0xaaaaaa)
     (1 / 2) 1 1 = Inr ex_particles_edge"
proof -
  have "replicate 3 (0::real) = [0, 0, 0]"
    by (simp add: numeral_3_eq_3)
  then show ?thesis
    using float32_near_one
    by (simp add: createParticleSystem_def ex_links_def initLinkResources_def Let_def
        new_ResourceManager_def addTexture_def addMaterial_def setParameter_def getTexture_def
        createParticleTexture_def placeParticle_def ex_particles_edge_def float32_0)
qed

lemma ex_particles_updated:
  "offsets_of (updateParticles ex_particles (0, 0, 0) (1, 0, 0)) = [1]"
  by (simp add: updateParticles_def ex_particles_def moveParticle_def offsets_of_def Let_def
      float32_1)

lemma ex_particles_updated_twice:
  "offsets_of (updateParticles (updateParticles ex_particles (0, 0, 0) (1, 0, 0))
     (0, 0, 0) (1, 0, 0)) = [1 / 2]"
  by (simp add: updateParticles_def ex_particles_def moveParticle_def offsets_of_def Let_def
      float32_1 float32_0 float32_three_halves float32_half)

text \<open>
  Claim C5 (particle count). In a link module initialised at a quality tier, building the
  object of a link succeeds; it has a particle system exactly when particle display is on
  and the value of the link is positive. The particle count is then the smaller of the
  ceiling of twice the value and the maximum of the tier (50, 25 or 10): that many offsets
  are stored, one rounded random draw for each particle, and three times as many position
  coordinates.
\<close>

theorem particle_count:
  "(let st = snd (initLinkResources doc d \<lparr>linkResourceManager = None\<rparr>);
        n = min \<lceil>link_value l * 2\<rceil> (case d of High \<Rightarrow> 50 | Medium \<Rightarrow> 25 | Low \<Rightarrow> 10) in
    \<exists>g. createLinkObject doc' random h l showParticles particleSpeed particleSize st = Inr (g, st)
       \<and> (particleSystem g \<noteq> None \<longleftrightarrow> showParticles \<and> link_value l > 0)
       \<and> (showParticles \<and> link_value l > 0 \<longrightarrow>
            count_of g = Some n
            \<and> (\<exists>ps. particleSystem g = Some ps
                  \<and> length (offsets_of ps) = nat n
                  \<and> offsets_of ps = map (\<lambda>i. float32 (random i)) [0..<nat n]
                  \<and> length (positions ps) = nat (n * 3))))"
proof -
  let ?maxP = "case d of High \<Rightarrow> 50 | Medium \<Rightarrow> 25 | Low \<Rightarrow> (10::int)"
  obtain rm where rm: "initLinkResources doc d \<lparr>linkResourceManager = None\<rparr>
          = (rm, \<lparr>linkResourceManager = Some rm\<rparr>)"
     "textures rm ''particle'' = Some (createParticleTexture doc)"
     "materials rm ''linkBase'' = Some \<lparr>mat_transparent = True, mat_opacity = 0.6, mat_color = None\<rparr>"
     "parameters rm ''maxParticles'' = Some ?maxP"
    using init_link_manager [of doc d] by blast
  let ?st = "\<lparr>linkResourceManager = Some rm\<rparr>"
  have mp: "?maxP \<noteq> 0" by (cases d) simp_all
  show ?thesis
  proof (cases "showParticles \<and> link_value l > 0")
    case True
    let ?n = "min \<lceil>link_value l * 2\<rceil> ?maxP"
    have "0 < \<lceil>link_value l * 2\<rceil>" using True by simp
    moreover have "0 < ?maxP" by (cases d) simp_all
    ultimately have n: "0 \<le> ?n" by simp
    have lm: "linkResourceManager ?st = Some rm" by simp
    obtain ps where ps: "createParticleSystem ?st random (position h (link_source l))
        (position h (link_target l))
        (case link_color l of None \<Rightarrow> ColorNumber 0xaaaaaa
           | Some c \<Rightarrow> if c = [] then ColorNumber 0xaaaaaa else ColorString c)
        particleSpeed ?n particleSize = Inr ps"
      using createParticleSystem_ok [OF lm rm(2) n] by blast
    obtain md where md: "metadata ps = Some md" "md_count md = ?n"
      "md_offsets md = map (\<lambda>i. float32 (random i)) [0..<nat ?n]"
      "length (positions ps) = nat (?n * 3)"
      using createParticleSystem_built [OF ps] by blast
    show ?thesis
      using True rm mp ps md
      by (simp add: createLinkObject_def Let_def getMaterial_def getParameter_def count_of_def
          offsets_of_def)
  next
    case False
    then show ?thesis
      using rm
      by (auto simp add: createLinkObject_def Let_def getMaterial_def)
  qed
qed

theorem particle_count_witness:
  "(\<exists>g ps. createLinkObject False (\<lambda>_. 1 / 2) ex_store (ex_link\<lparr>link_value := 3\<rparr>) True 0.005 1
           (snd (initLinkResources False Medium \<lparr>linkResourceManager = None\<rparr>))
         = Inr (g, snd (initLinkResources False Medium \<lparr>linkResourceManager = None\<rparr>))
        \<and> count_of g = Some 6 \<and> particleSystem g = Some ps
        \<and> length (offsets_of ps) = 6 \<and> length (positions ps) = 18
        \<and> offsets_of ps = [1 / 2, 1 / 2, 1 / 2, 1 / 2, 1 / 2, 1 / 2])
   \<and> (\<exists>g ps. createLinkObject False (\<lambda>_. 1 / 2) ex_store (ex_link\<lparr>link_value := 20\<rparr>) True 0.005 1
           (snd (initLinkResources False Low \<lparr>linkResourceManager = None\<rparr>))
         = Inr (g, snd (initLinkResources False Low \<lparr>linkResourceManager = None\<rparr>))
        \<and> count_of g = Some 10 \<and> particleSystem g = Some ps
        \<and> length (offsets_of ps) = 10 \<and> length (positions ps) = 30)
   \<and> (\<exists>g. createLinkObject False (\<lambda>_. 1 / 2) ex_store (ex_link\<lparr>link_value := 0\<rparr>) True 0.005 1
           (snd (initLinkResources False Low \<lparr>linkResourceManager = None\<rparr>))
         = Inr (g, snd (initLinkResources False Low \<lparr>linkResourceManager = None\<rparr>))
        \<and> particleSystem g = None)"
proof -
  have a: "\<lceil>link_value (ex_link\<lparr>link_value := 3\<rparr>) * 2\<rceil> = 6"
    "\<lceil>link_value (ex_link\<lparr>link_value := 20\<rparr>) * 2\<rceil> = 40"
    by simp_all
  have u: "[0..<6] = [0, 1, 2, 3, 4, 5]"
    by (simp add: upt_rec)
  show ?thesis
    using particle_count [of False Medium "ex_link\<lparr>link_value := 3\<rparr>" False "\<lambda>_. 1 / 2" ex_store True "0.005" 1]
      particle_count [of False Low "ex_link\<lparr>link_value := 20\<rparr>" False "\<lambda>_. 1 / 2" ex_store True "0.005" 1]
      particle_count [of False Low "ex_link\<lparr>link_value := 0\<rparr>" False "\<lambda>_. 1 / 2" ex_store True "0.005" 1]
    unfolding Let_def a by (auto simp add: u float32_half)
qed

text \<open>
  Claim C6 as stated fails, in two ways. The offsets are kept in single precision, so a
  random draw slightly below 1 is stored as exactly 1 at creation. And an offset that an
  update moves exactly onto 1 is not wrapped, since the code wraps only offsets greater
  than 1: with speed one half, the particle created at offset one half is at offset 1
  after one update.
\<close>

theorem offsets_half_open_counterexample:
  "createParticleSystem ex_links (\<lambda>_. 1 / 2) (0, 0, 0) (1, 0, 0) (ColorNumber 0xaaaaaa) (1 / 2) 1 1
     = Inr ex_particles
   \<and> (0::real) < 1 / 2 \<and> (1 / 2 ::real) < 1
   \<and> offsets_of ex_particles = [1 / 2]
   \<and> offsets_of (updateParticles ex_particles (0, 0, 0) (1, 0, 0)) = [1]
   \<and> (0::real) \<le> 1 - 1 / 2 ^ 30 \<and> (1 - 1 / 2 ^ 30 ::real) < 1
   \<and> createParticleSystem ex_links (\<lambda>_. 1 - 1 / 2 ^ 30) (0, 0, 0) (1, 0, 0)
        (ColorNumber 0xaaaaaa) (1 / 2) 1 1 = Inr ex_particles_edge
   \<and> offsets_of ex_particles_edge = [1]
   \<and> \<not> ((0::real) \<le> 1 \<and> (1::real) < 1)"
  using ex_particles_created ex_particles_updated ex_particles_edge_created
  by (simp add: offsets_of_def ex_particles_def ex_particles_edge_def)

text \<open>
  Claim C6, amended (offset range). For a particle system created with a speed strictly
  between 0 and 1 from random draws in the half-open unit interval, there is one offset
  for each particle, and every offset lies in the closed interval from 0 to 1 right after
  creation and after any number of calls of \<open>updateParticles\<close>, whatever the end points of
  each call.
\<close>

theorem offsets_in_closed_unit_interval:
  assumes "\<forall>i. 0 \<le> random i \<and> random i < 1" and "0 < speed" and "speed < 1"
    and "createParticleSystem st random s t col speed count sz = Inr ps"
  shows "length (offsets_of ps) = nat count
    \<and> (\<forall>v\<in>set (offsets_of ps). 0 \<le> v \<and> v \<le> 1)
    \<and> (\<forall>moves.
          length (offsets_of (fold (\<lambda>(s, t) p. updateParticles p s t) moves ps)) = nat count
          \<and> (\<forall>v\<in>set (offsets_of (fold (\<lambda>(s, t) p. updateParticles p s t) moves ps)).
                0 \<le> v \<and> v \<le> 1))"
proof -
  obtain md where md: "metadata ps = Some md" "md_speed md = speed"
    "md_offsets md = map (\<lambda>i. float32 (random i)) [0..<nat count]"
    using createParticleSystem_built [OF assms(4)] by blast
  have len: "length (md_offsets md) = nat count"
    using md(3) by simp
  have le: "\<forall>v\<in>set (md_offsets md). 0 \<le> v \<and> v \<le> 1"
  proof
    fix v assume "v \<in> set (md_offsets md)"
    then obtain i where "v = float32 (random i)"
      using md(3) by auto
    moreover have "0 \<le> random i \<and> random i \<le> 1"
      using assms(1) by (simp add: less_imp_le)
    ultimately show "0 \<le> v \<and> v \<le> 1"
      by (simp add: float32_unit)
  qed
  have "length (offsets_of (fold (\<lambda>(s, t) p. updateParticles p s t) moves ps)) = nat count
      \<and> (\<forall>v\<in>set (offsets_of (fold (\<lambda>(s, t) p. updateParticles p s t) moves ps)).
            0 \<le> v \<and> v \<le> 1)" for moves
    using updates_inv [OF assms(2,3) md(1,2) le, of moves] len
    by (auto simp add: offsets_of_def)
  then show ?thesis
    using md(1) len le by (simp add: offsets_of_def)
qed

theorem offsets_in_closed_unit_interval_witness:
  "(\<forall>i::nat. (0::real) \<le> 1 / 2 \<and> (1 / 2 ::real) < 1) \<and> (0::real) < 1 / 2 \<and> (1 / 2 ::real) < 1
   \<and> createParticleSystem ex_links (\<lambda>_. 1 / 2) (0, 0, 0) (1, 0, 0) (ColorNumber 0xaaaaaa) (1 / 2) 1 1
       = Inr ex_particles
   \<and> length (offsets_of ex_particles) = 1
   \<and> list_all (\<lambda>v. 0 \<le> v \<and> v \<le> 1) (offsets_of ex_particles)
   \<and> length (offsets_of (fold (\<lambda>(s, t) p. updateParticles p s t)
        [((0, 0, 0), (1, 0, 0)), ((0, 0, 0), (1, 0, 0)), ((1, 0, 0), (1, 0, 0))] ex_particles)) = 1
   \<and> list_all (\<lambda>v. 0 \<le> v \<and> v \<le> 1) (offsets_of (fold (\<lambda>(s, t) p. updateParticles p s t)
        [((0, 0, 0), (1, 0, 0)), ((0, 0, 0), (1, 0, 0)), ((1, 0, 0), (1, 0, 0))] ex_particles))
   \<and> offsets_of ex_particles = [1 / 2]
   \<and> offsets_of (updateParticles ex_particles (0, 0, 0) (1, 0, 0)) = [1]
   \<and> offsets_of (updateParticles (updateParticles ex_particles (0, 0, 0) (1, 0, 0))
        (0, 0, 0) (1, 0, 0)) = [1 / 2]"
proof -
  have r: "\<forall>i::nat. (0::real) \<le> (\<lambda>_. 1 / 2) i \<and> (\<lambda>_. 1 / 2 ::real) i < 1"
    by simp
  have a: "(0::real) < 1 / 2" "(1 / 2 ::real) < 1"
    by simp_all
  have o: "offsets_of ex_particles = [1 / 2]"
    by (simp add: offsets_of_def ex_particles_def)
  note t = offsets_in_closed_unit_interval [OF r a ex_particles_created]
  let ?ms = "[((0, 0, 0), (1, 0, 0)), ((0, 0, 0), (1, 0, 0)), ((1, 0, 0), (1, 0, 0))]
    :: ((real \<times> real \<times> real) \<times> (real \<times> real \<times> real)) list"
  have m: "length (offsets_of (fold (\<lambda>(s, t) p. updateParticles p s t) ?ms ex_particles)) = 1
    \<and> list_all (\<lambda>v. 0 \<le> v \<and> v \<le> 1)
        (offsets_of (fold (\<lambda>(s, t) p. updateParticles p s t) ?ms ex_particles))"
    using t [THEN conjunct2, THEN conjunct2, THEN spec, of ?ms]
    by (simp only: list_all_iff) simp
  have c: "length (offsets_of ex_particles) = 1
    \<and> list_all (\<lambda>v. 0 \<le> v \<and> v \<le> 1) (offsets_of ex_particles)"
    using t by (simp only: list_all_iff) simp
  show ?thesis
    using ex_particles_created o m c ex_particles_updated ex_particles_updated_twice r a
    by (intro conjI) (simp_all only: simp_thms)
qed

text \<open>
  Claim C7 (degenerate geometry). \<open>updateParticles\<close> with source and target at the same
  position returns the particle system as it was, positions included; it has no path that
  raises. In the orbital force the visit of a node at distance zero from its orbital
  target leaves the store as it is, and when the node array holds each object once the
  whole invocation leaves the velocity of that node as it was.
\<close>

theorem degenerate_noop:
  "updateParticles ps p p = ps
   \<and> (orbitalTarget F now r h = Some t \<and> distanceTo t (h r) = 0 \<longrightarrow> visit F alpha now r h = h)
   \<and> (distinct (nodes F) \<and> k < length (nodes F) \<and> nodes F ! k = r
        \<and> orbitalTarget F (clock k) r h = Some t' \<and> distanceTo t' (h r) = 0 \<longrightarrow>
          node_vx (force F alpha clock h r) = node_vx (h r)
        \<and> node_vy (force F alpha clock h r) = node_vy (h r)
        \<and> node_vz (force F alpha clock h r) = node_vz (h r))"
proof -
  have u: "updateParticles ps p p = ps"
    by (cases p) (simp add: updateParticles_def split: option.splits)
  have v: "force F alpha clock h r = h r"
    if "distinct (nodes F)" "k < length (nodes F)" "nodes F ! k = r"
      "orbitalTarget F (clock k) r h = Some t'" "distanceTo t' (h r) = 0"
  proof (cases "0 < strength F")
    case True
    have "force F alpha clock h r = visit F alpha (clock k) r h r"
      using force_at [OF that(1,2) True, of alpha clock h] that(3) by simp
    then show ?thesis
      using that(4,5) by (simp add: visit_zero_distance)
  next
    case False
    then show ?thesis by (simp add: force_def)
  qed
  show ?thesis
    using u v by (simp add: visit_zero_distance)
qed

theorem degenerate_noop_witness:
  "distinct (nodes ex_force) \<and> 0 < length (nodes ex_force) \<and> nodes ex_force ! 0 = 1
   \<and> orbitalTarget ex_force 0 1 ex_store_on_orbit = Some (52, 0, 0)
   \<and> distanceTo (52, 0, 0) (ex_store_on_orbit 1) = 0
   \<and> visit ex_force (1 / 2) 0 1 ex_store_on_orbit = ex_store_on_orbit
   \<and> node_vx (force ex_force (1 / 2) (\<lambda>_. 0) ex_store_on_orbit 1) = 0
   \<and> node_vy (force ex_force (1 / 2) (\<lambda>_. 0) ex_store_on_orbit 1) = 0
   \<and> node_vz (force ex_force (1 / 2) (\<lambda>_. 0) ex_store_on_orbit 1) = 0"
proof -
  have a: "distinct (nodes ex_force)" "0 < length (nodes ex_force)" "nodes ex_force ! 0 = 1"
    by (simp_all add: ex_force_def)
  have d: "distanceTo (52, 0, 0) (ex_store_on_orbit 1) = 0"
    by (simp add: distanceTo_def ex_store_on_orbit_def ex_leaf_def)
  have v: "node_vx (ex_store_on_orbit 1) = 0" "node_vy (ex_store_on_orbit 1) = 0"
    "node_vz (ex_store_on_orbit 1) = 0"
    by (simp_all add: ex_store_on_orbit_def ex_leaf_def)
  show ?thesis
    using degenerate_noop [of _ _ ex_force 0 1 ex_store_on_orbit "(52, 0, 0)" "1 / 2" 0
        "\<lambda>_. 0" "(52, 0, 0)"]
      a ex_target_on_orbit d v
    by simp
qed

end
